theory Spec2Isabelle
  imports Complex_Main
begin

section \<open>Values of the parsed tab document\<close>

text \<open>
  \<^verbatim>\<open>TabToPDF.convert\<close> works on what \<^verbatim>\<open>json.load\<close> returns. The containers of the
  format (the document, its measures, voices, beats, notes, tempo changes and the track
  information) are records with one optional field per key the code reads; an absent key
  is \<open>None\<close>. What is stored under a key is an arbitrary JSON value, since the code
  coerces and tests these values at run time: a field can hold a number, a string, a
  list, an object or \<^verbatim>\<open>null\<close> where the format expects something else, and the model
  says which exception Python raises then.

  Python floats are modelled by the exact rationals they denote: rounding, overflow and
  the non-standard JSON literals \<^verbatim>\<open>NaN\<close> and \<^verbatim>\<open>Infinity\<close> are not part of the model.
  Strings are lists of 8-bit characters, and \<^verbatim>\<open>lower\<close>, \<^verbatim>\<open>strip\<close> and \<^verbatim>\<open>float\<close> are
  modelled on ASCII. A JSON object is the list of its items, with distinct keys.
\<close>

datatype json =
    JNull
  | JBool bool
  | JInt int
  | JFloat rat
  | JStr string
  | JArr "json list"
  | JObj "(string \<times> json) list"

datatype error =
    TypeError
  | ValueError
  | IndexError
  | KeyError
  | ZeroDivisionError
  | OverflowError
  | AttributeError

record Note =
  n_rest :: "json option"
  n_fret :: "json option"
  n_string :: "json option"

record Beat =
  b_duration :: "json option"
  b_type :: "json option"
  b_beamStart :: "json option"
  b_beamStop :: "json option"
  b_notes :: "Note list option"

record Voice =
  v_beats :: "Beat list option"

record Measure =
  m_rest :: "json option"
  m_signature :: "json option"
  m_voices :: "Voice list option"

record TempoChange =
  tc_measure :: "json option"
  tc_bpm :: "json option"

record Automations =
  a_tempo :: "TempoChange list option"

record TabDocument =
  d_measures :: "Measure list option"
  d_automations :: "Automations option"
  d_strings :: "json option"
  d_tuning :: "json option"
  d_instrument :: "json option"

record TrackInfo =
  ti_title :: "json option"
  ti_artist :: "json option"
  ti_instrument :: "json option"
  ti_tuning :: "json option"

section \<open>The Python operations the renderer uses\<close>

definition ebind :: "error + 'a \<Rightarrow> ('a \<Rightarrow> error + 'b) \<Rightarrow> error + 'b" where
  "ebind m f = (case m of Inl e \<Rightarrow> Inl e | Inr x \<Rightarrow> f x)"

text \<open>\<^verbatim>\<open>d.get(key, default)\<close> on a container whose field for the key is \<open>v\<close>.\<close>

definition get_or :: "'a option \<Rightarrow> 'a \<Rightarrow> 'a" where
  "get_or v d = (case v of None \<Rightarrow> d | Some x \<Rightarrow> x)"

text \<open>\<^verbatim>\<open>d.get(key)\<close>: Python's \<^verbatim>\<open>None\<close> when the key is absent.\<close>

definition get_none :: "json option \<Rightarrow> json" where
  "get_none v = get_or v JNull"

text \<open>Truth value testing (\<^verbatim>\<open>if v:\<close>).\<close>

fun truthy :: "json \<Rightarrow> bool" where
  "truthy JNull = False"
| "truthy (JBool b) = b"
| "truthy (JInt n) = (n \<noteq> 0)"
| "truthy (JFloat r) = (r \<noteq> 0)"
| "truthy (JStr s) = (s \<noteq> [])"
| "truthy (JArr xs) = (xs \<noteq> [])"
| "truthy (JObj ps) = (ps \<noteq> [])"

text \<open>The numeric values: \<^verbatim>\<open>int\<close>, \<^verbatim>\<open>float\<close> and \<^verbatim>\<open>bool\<close> (a subclass of \<^verbatim>\<open>int\<close>).\<close>

fun num_of :: "json \<Rightarrow> rat option" where
  "num_of (JBool b) = Some (if b then 1 else 0)"
| "num_of (JInt n) = Some (of_int n)"
| "num_of (JFloat r) = Some r"
| "num_of v = None"

text \<open>Arithmetic and ordering of a value with a number raise \<^verbatim>\<open>TypeError\<close> on a non-number.\<close>

definition py_num :: "json \<Rightarrow> error + rat" where
  "py_num v = (case num_of v of None \<Rightarrow> Inl TypeError | Some r \<Rightarrow> Inr r)"

definition py_truediv :: "json \<Rightarrow> json \<Rightarrow> error + rat" where
  "py_truediv a b =
     (case num_of a of
        None \<Rightarrow> Inl TypeError
      | Some x \<Rightarrow>
          (case num_of b of
             None \<Rightarrow> Inl TypeError
           | Some y \<Rightarrow> if y = 0 then Inl ZeroDivisionError else Inr (x / y)))"

text \<open>
  \<^verbatim>\<open>v[i]\<close> for a literal index \<open>i \<ge> 0\<close>: lists and strings are indexed, a JSON object has
  string keys only, so an integer key is missing, and nothing else is subscriptable.
\<close>

fun py_index :: "json \<Rightarrow> nat \<Rightarrow> error + json" where
  "py_index (JArr xs) i = (if i < length xs then Inr (xs ! i) else Inl IndexError)"
| "py_index (JStr s) i = (if i < length s then Inr (JStr [s ! i]) else Inl IndexError)"
| "py_index (JObj ps) i = Inl KeyError"
| "py_index v i = Inl TypeError"

text \<open>Iteration (\<^verbatim>\<open>for x in v\<close>, \<^verbatim>\<open>enumerate(v)\<close>, \<^verbatim>\<open>reversed(v)\<close>): the items of a list,
  the characters of a string, the keys of an object.\<close>

fun py_iter :: "json \<Rightarrow> error + json list" where
  "py_iter (JArr xs) = Inr xs"
| "py_iter (JStr s) = Inr (map (\<lambda>c. JStr [c]) s)"
| "py_iter (JObj ps) = Inr (map (\<lambda>p. JStr (fst p)) ps)"
| "py_iter v = Inl TypeError"

fun py_len :: "json \<Rightarrow> error + int" where
  "py_len (JArr xs) = Inr (int (length xs))"
| "py_len (JStr s) = Inr (int (length s))"
| "py_len (JObj ps) = Inr (int (length ps))"
| "py_len v = Inl TypeError"

text \<open>An integer where Python demands one (\<^verbatim>\<open>range(n)\<close>, a slice bound).\<close>

fun py_index_int :: "json \<Rightarrow> error + int" where
  "py_index_int (JInt n) = Inr n"
| "py_index_int (JBool b) = Inr (if b then 1 else 0)"
| "py_index_int v = Inl TypeError"

text \<open>\<^verbatim>\<open>xs[:n]\<close>: a negative bound counts from the end.\<close>

definition py_slice_to :: "'a list \<Rightarrow> int \<Rightarrow> 'a list" where
  "py_slice_to xs n = (if n < 0 then take (nat (int (length xs) + n)) xs else take (nat n) xs)"

text \<open>\<^verbatim>\<open>range(n)\<close> is empty for \<open>n \<le> 0\<close>.\<close>

definition py_range :: "int \<Rightarrow> nat list" where
  "py_range n = [0 ..< nat n]"

subsection \<open>Equality\<close>

text \<open>\<^verbatim>\<open>a == b\<close>: numbers compare by value across \<^verbatim>\<open>bool\<close>, \<^verbatim>\<open>int\<close> and \<^verbatim>\<open>float\<close>,
  lists item by item, objects key by key.\<close>

fun py_eq :: "json \<Rightarrow> json \<Rightarrow> bool" where
  "py_eq JNull JNull = True"
| "py_eq (JStr s) (JStr t) = (s = t)"
| "py_eq (JArr xs) (JArr ys) = list_all2 py_eq xs ys"
| "py_eq (JObj ps) (JObj qs) =
     (set (map fst ps) = set (map fst qs) \<and>
      list_all (\<lambda>p. case map_of qs (fst p) of None \<Rightarrow> False | Some w \<Rightarrow> py_eq (snd p) w) ps)"
| "py_eq a b =
     (case num_of a of
        None \<Rightarrow> False
      | Some x \<Rightarrow> (case num_of b of None \<Rightarrow> False | Some y \<Rightarrow> x = y))"

subsection \<open>int(float(s))\<close>

datatype pyfloat = Finite rat | Infinite | NotANumber

definition is_space :: "char \<Rightarrow> bool" where
  "is_space c = (let n = (of_char c :: nat) in (9 \<le> n \<and> n \<le> 13) \<or> (28 \<le> n \<and> n \<le> 32))"

definition strip :: "string \<Rightarrow> string" where
  "strip s = rev (dropWhile is_space (rev (dropWhile is_space s)))"

definition digit_val :: "char \<Rightarrow> nat option" where
  "digit_val c = (let n = (of_char c :: nat) in if 48 \<le> n \<and> n \<le> 57 then Some (n - 48) else None)"

definition to_lower :: "char \<Rightarrow> char" where
  "to_lower c =
     (case map_of (zip ''ABCDEFGHIJKLMNOPQRSTUVWXYZ'' ''abcdefghijklmnopqrstuvwxyz'') c of
        None \<Rightarrow> c
      | Some l \<Rightarrow> l)"

definition lower :: "string \<Rightarrow> string" where
  "lower s = map to_lower s"

text \<open>A digit part: digits, with single underscores allowed between two digits.\<close>

fun digits_from :: "string \<Rightarrow> nat list \<times> string" where
  "digits_from (c # u # c2 # r) =
     (case digit_val c of
        None \<Rightarrow> ([], c # u # c2 # r)
      | Some d \<Rightarrow>
          if u = CHR ''_'' \<and> digit_val c2 \<noteq> None
          then (case digits_from (c2 # r) of (ds, rest) \<Rightarrow> (d # ds, rest))
          else (case digits_from (u # c2 # r) of (ds, rest) \<Rightarrow> (d # ds, rest)))"
| "digits_from (c # cs) =
     (case digit_val c of
        None \<Rightarrow> ([], c # cs)
      | Some d \<Rightarrow> (case digits_from cs of (ds, rest) \<Rightarrow> (d # ds, rest)))"
| "digits_from [] = ([], [])"

definition digits_value :: "nat list \<Rightarrow> nat" where
  "digits_value ds = foldl (\<lambda>a d. 10 * a + d) 0 ds"

definition split_sign :: "string \<Rightarrow> bool \<times> string" where
  "split_sign s =
     (case s of
        [] \<Rightarrow> (False, [])
      | c # cs \<Rightarrow>
          if c = CHR ''-'' then (True, cs)
          else if c = CHR ''+'' then (False, cs)
          else (False, c # cs))"

text \<open>The exponent part after the mantissa: empty, or \<open>e\<close>, an optional sign and a digit
  part; the result is the power of ten to scale by.\<close>

definition exponent_of :: "string \<Rightarrow> rat option" where
  "exponent_of s =
     (case s of
        [] \<Rightarrow> Some 1
      | c # cs \<Rightarrow>
          if c = CHR ''e'' \<or> c = CHR ''E''
          then (case split_sign cs of
                  (neg, r) \<Rightarrow>
                    (case digits_from r of
                       (ds, rest) \<Rightarrow>
                         if ds = [] \<or> rest \<noteq> [] then None
                         else if neg then Some (1 / 10 ^ digits_value ds)
                         else Some (10 ^ digits_value ds)))
          else None)"

definition unsigned_float :: "string \<Rightarrow> rat option" where
  "unsigned_float s =
     (case digits_from s of
        (ip, r1) \<Rightarrow>
          (case r1 of
             c # r \<Rightarrow>
               if c = CHR ''.''
               then (case digits_from r of
                       (fp, r2) \<Rightarrow>
                         if ip = [] \<and> fp = [] then None
                         else (case exponent_of r2 of
                                 None \<Rightarrow> None
                               | Some k \<Rightarrow>
                                   Some ((of_nat (digits_value ip) +
                                          of_nat (digits_value fp) / 10 ^ length fp) * k)))
               else if ip = [] then None
               else (case exponent_of r1 of
                       None \<Rightarrow> None
                     | Some k \<Rightarrow> Some (of_nat (digits_value ip) * k))
           | [] \<Rightarrow> if ip = [] then None else Some (of_nat (digits_value ip))))"

text \<open>\<^verbatim>\<open>float(s)\<close> of a string: surrounding white space is ignored, then a sign and a
  decimal literal, \<open>inf\<close>, \<open>infinity\<close> or \<open>nan\<close> in any case; \<open>None\<close> is \<^verbatim>\<open>ValueError\<close>.\<close>

definition float_of_string :: "string \<Rightarrow> pyfloat option" where
  "float_of_string s =
     (case split_sign (strip s) of
        (neg, r) \<Rightarrow>
          if lower r = ''inf'' \<or> lower r = ''infinity'' then Some Infinite
          else if lower r = ''nan'' then Some NotANumber
          else (case unsigned_float r of
                  None \<Rightarrow> None
                | Some q \<Rightarrow> Some (Finite (if neg then - q else q))))"

fun py_float :: "json \<Rightarrow> error + pyfloat" where
  "py_float (JStr s) = (case float_of_string s of None \<Rightarrow> Inl ValueError | Some f \<Rightarrow> Inr f)"
| "py_float (JInt n) = Inr (Finite (of_int n))"
| "py_float (JFloat r) = Inr (Finite r)"
| "py_float (JBool b) = Inr (Finite (if b then 1 else 0))"
| "py_float v = Inl TypeError"

text \<open>\<^verbatim>\<open>int(f)\<close> truncates towards zero.\<close>

fun py_int :: "pyfloat \<Rightarrow> error + int" where
  "py_int (Finite r) = Inr (if 0 \<le> r then \<lfloor>r\<rfloor> else \<lceil>r\<rceil>)"
| "py_int Infinite = Inl OverflowError"
| "py_int NotANumber = Inl ValueError"

definition int_float :: "json \<Rightarrow> error + int" where
  "int_float s = ebind (py_float s) py_int"

text \<open>\<^verbatim>\<open>'drum' in s.lower()\<close>; only a string has \<^verbatim>\<open>lower\<close>.\<close>

fun contains :: "string \<Rightarrow> string \<Rightarrow> bool" where
  "contains sub [] = (sub = [])"
| "contains sub (c # cs) = (take (length sub) (c # cs) = sub \<or> contains sub cs)"

fun drum_in_lower :: "json \<Rightarrow> error + bool" where
  "drum_in_lower (JStr s) = Inr (contains ''drum'' (lower s))"
| "drum_in_lower v = Inl AttributeError"

section \<open>The canvas\<close>

text \<open>
  The PDF canvas is the list of drawing calls made on it: the pages already closed by
  \<^verbatim>\<open>showPage\<close> and the calls of the page being drawn. Texts are kept as the Python
  expressions that produce them. \<^verbatim>\<open>save\<close> closes the page being drawn when it has
  content and writes the pages; a render that raises never reaches \<^verbatim>\<open>save\<close>, so it
  writes nothing.
\<close>

datatype pytext =
    Lit string  \<comment> \<open>a string literal, or a string computed from literals\<close>
  | StrOf json  \<comment> \<open>\<^verbatim>\<open>str(v)\<close>\<close>
  | Raw json  \<comment> \<open>the value itself, passed as the text\<close>
  | Header json json  \<comment> \<open>\<^verbatim>\<open>f"{artist} - {title}"\<close>\<close>
  | TempoMark json  \<comment> \<open>the quarter-note sign, then \<^verbatim>\<open>f"= {bpm}"\<close>\<close>

datatype colour = Black | Gray | White

datatype drawop =
    SetFont string rat
  | SetFillColor colour
  | SetStrokeColor colour
  | SetLineWidth rat
  | DrawString rat rat pytext
  | DrawRightString rat rat pytext
  | DrawCentredString rat rat pytext
  | Line rat rat rat rat
  | RectBehind pytext string rat rat rat
    \<comment> \<open>\<^verbatim>\<open>rect(x - w/2 - 1, y - 3, w + 2, 7, fill=1, stroke=0)\<close> for the width \<open>w\<close> of
        the text in the font and size given, then \<open>x\<close> and \<open>y\<close>\<close>

record canvas =
  pages :: "drawop list list"
  code :: "drawop list"

definition new_canvas :: canvas where
  "new_canvas = \<lparr>pages = [], code = []\<rparr>"

definition emit :: "drawop list \<Rightarrow> canvas \<Rightarrow> canvas" where
  "emit ops c = c\<lparr>code := code c @ ops\<rparr>"

definition showPage :: "canvas \<Rightarrow> canvas" where
  "showPage c = \<lparr>pages = pages c @ [code c], code = []\<rparr>"

definition save :: "canvas \<Rightarrow> drawop list list" where
  "save c = pages (if code c \<noteq> [] then showPage c else c)"

section \<open>Layout constants\<close>

text \<open>\<^verbatim>\<open>reportlab.lib.units.mm\<close> is 72 / 25.4 points and \<^verbatim>\<open>A4\<close> is 210 mm by 297 mm.\<close>

definition mm :: rat where
  "mm = 360 / 127"

definition page_width :: rat where
  "page_width = 210 * mm"

definition page_height :: rat where
  "page_height = 297 * mm"

definition margin :: rat where
  "margin = 15 * mm"

definition string_spacing :: rat where
  "string_spacing = (32 / 10) * mm"

definition measures_per_line :: nat where
  "measures_per_line = 4"

definition line_spacing :: rat where
  "line_spacing = 18 * mm"

definition usable_width :: rat where
  "usable_width = page_width - 2 * margin - 15 * mm"

definition measure_width :: rat where
  "measure_width = usable_width / of_nat measures_per_line"

definition tab_x_start :: rat where
  "tab_x_start = margin + 15 * mm"

definition MIDI_TO_NOTE :: "(int \<times> string) list" where
  "MIDI_TO_NOTE =
     [(28, ''E''), (33, ''A''), (38, ''D''), (43, ''G''), (48, ''C''),
      (40, ''E''), (45, ''A''), (50, ''D''), (55, ''G''), (59, ''B''), (64, ''e''),
      (36, ''C''), (41, ''F''), (46, ''B'')]"

text \<open>\<^verbatim>\<open>MIDI_TO_NOTE.get(m, '?')\<close>: a number finds the key it equals, a list or an object
  is unhashable.\<close>

fun midi_name :: "json \<Rightarrow> error + string" where
  "midi_name (JArr xs) = Inl TypeError"
| "midi_name (JObj ps) = Inl TypeError"
| "midi_name v =
     (case num_of v of
        None \<Rightarrow> Inr ''?''
      | Some r \<Rightarrow>
          if of_int \<lfloor>r\<rfloor> = r
          then Inr (get_or (map_of MIDI_TO_NOTE \<lfloor>r\<rfloor>) ''?'')
          else Inr ''?'')"

section \<open>Sequencing\<close>

text \<open>A loop body run over a list, stopping at the first exception.\<close>

fun emap :: "('a \<Rightarrow> error + 'b) \<Rightarrow> 'a list \<Rightarrow> error + 'b list" where
  "emap f [] = Inr []"
| "emap f (x # xs) = ebind (f x) (\<lambda>y. ebind (emap f xs) (\<lambda>ys. Inr (y # ys)))"

fun efold :: "('s \<Rightarrow> 'a \<Rightarrow> error + 's) \<Rightarrow> 's \<Rightarrow> 'a list \<Rightarrow> error + 's" where
  "efold f s [] = Inr s"
| "efold f s (x # xs) = ebind (f s x) (\<lambda>s'. efold f s' xs)"

section \<open>The helper methods of TabToPDF\<close>

text \<open>\<^verbatim>\<open>_find_first_content_measure\<close>: the index of the first measure whose \<^verbatim>\<open>rest\<close> is
  not true, 0 when there is none.\<close>

fun first_content :: "nat \<Rightarrow> Measure list \<Rightarrow> nat option" where
  "first_content i [] = None"
| "first_content i (m # ms) =
     (if \<not> truthy (get_or (m_rest m) (JBool False)) then Some i
      else first_content (Suc i) ms)"

definition find_first_content_measure :: "Measure list \<Rightarrow> nat" where
  "find_first_content_measure ms =
     (case first_content 0 ms of None \<Rightarrow> 0 | Some i \<Rightarrow> max 0 i)"

text \<open>\<^verbatim>\<open>_get_tempo_at_measure\<close>: the loop over the tempo changes, with \<^verbatim>\<open>current_bpm\<close>
  as its first argument.\<close>

fun tempo_loop :: "json \<Rightarrow> nat \<Rightarrow> TempoChange list \<Rightarrow> error + json" where
  "tempo_loop current_bpm measure_idx [] = Inr current_bpm"
| "tempo_loop current_bpm measure_idx (tc # tcs) =
     ebind (py_num (get_or (tc_measure tc) (JInt 0)))
       (\<lambda>m. if m \<le> of_nat measure_idx
             then tempo_loop (get_or (tc_bpm tc) (JInt 120)) measure_idx tcs
             else Inr current_bpm)"

definition get_tempo_at_measure :: "Automations \<Rightarrow> nat \<Rightarrow> error + json" where
  "get_tempo_at_measure automations measure_idx =
     tempo_loop (JInt 120) measure_idx (get_or (a_tempo automations) [])"

text \<open>\<^verbatim>\<open>_draw_rhythm_stem\<close>: the stem, then the flags chosen by the duration type.\<close>

definition stem_flags :: "rat \<Rightarrow> rat \<Rightarrow> rat \<Rightarrow> drawop list" where
  "stem_flags x flag_y duration_type =
     (if duration_type = 8 then
        [Line x flag_y (x + 2 * mm) (flag_y + (15 / 10) * mm)]
      else if duration_type = 16 then
        [Line x flag_y (x + 2 * mm) (flag_y + (15 / 10) * mm),
         Line x (flag_y + (12 / 10) * mm) (x + 2 * mm) (flag_y + (27 / 10) * mm)]
      else if duration_type \<ge> 32 then
        [Line x flag_y (x + 2 * mm) (flag_y + (15 / 10) * mm),
         Line x (flag_y + 1 * mm) (x + 2 * mm) (flag_y + (25 / 10) * mm),
         Line x (flag_y + 2 * mm) (x + 2 * mm) (flag_y + (35 / 10) * mm)]
      else [])"

definition draw_rhythm_stem :: "rat \<Rightarrow> rat \<Rightarrow> json \<Rightarrow> error + drawop list" where
  "draw_rhythm_stem x y duration_type =
     (let stem_y = y - 3 * mm;
          stem_height = 4 * mm;
          stem = [SetLineWidth (8 / 10), Line x stem_y x (stem_y - stem_height)]
      in ebind (py_num duration_type)
           (\<lambda>d. if d \<ge> 8 then Inr (stem @ stem_flags x (stem_y - stem_height) d)
                 else Inr stem))"

text \<open>\<^verbatim>\<open>top_num, bottom_num = signature\<close>.\<close>

definition unpack2 :: "json \<Rightarrow> error + json \<times> json" where
  "unpack2 v =
     ebind (py_iter v)
       (\<lambda>xs. case xs of [a, b] \<Rightarrow> Inr (a, b) | _ \<Rightarrow> Inl ValueError)"

text \<open>\<^verbatim>\<open>_draw_time_signature\<close>.\<close>

definition draw_time_signature :: "rat \<Rightarrow> rat \<Rightarrow> json \<Rightarrow> json \<Rightarrow> error + drawop list" where
  "draw_time_signature x y signature num_strings =
     (if \<not> truthy signature then Inr []
      else ebind (unpack2 signature)
             (\<lambda>(top_num, bottom_num).
                ebind (py_num num_strings)
                  (\<lambda>n. let center_y = y - (n - 1) * string_spacing / 2
                        in Inr [SetFont ''Helvetica-Bold'' 10,
                                DrawCentredString x (center_y + 2 * mm) (StrOf top_num),
                                DrawCentredString x (center_y - 4 * mm) (StrOf bottom_num)])))"

text \<open>\<^verbatim>\<open>_draw_tempo_marking\<close>.\<close>

definition draw_tempo_marking :: "rat \<Rightarrow> rat \<Rightarrow> json \<Rightarrow> drawop list" where
  "draw_tempo_marking x y bpm =
     [SetFont ''Helvetica'' 8, DrawString x (y + 4 * mm) (TempoMark bpm)]"

section \<open>convert: resolving the document's settings\<close>

text \<open>\<^verbatim>\<open>if track_info:\<close> holds for a dictionary with at least one key.\<close>

definition ti_present :: "TrackInfo option \<Rightarrow> bool" where
  "ti_present track_info =
     (case track_info of
        None \<Rightarrow> False
      | Some t \<Rightarrow>
          ti_title t \<noteq> None \<or> ti_artist t \<noteq> None \<or> ti_instrument t \<noteq> None \<or>
          ti_tuning t \<noteq> None)"

text \<open>\<^verbatim>\<open>track_info.get(key)\<close>, for a field selector as the key.\<close>

definition ti_get :: "TrackInfo option \<Rightarrow> (TrackInfo \<Rightarrow> json option) \<Rightarrow> json option" where
  "ti_get track_info field = (case track_info of None \<Rightarrow> None | Some t \<Rightarrow> field t)"

text \<open>Lines 137 to 139: the declared string count, or the length of the track's tuning.\<close>

definition declared_strings :: "TabDocument \<Rightarrow> TrackInfo option \<Rightarrow> error + json" where
  "declared_strings data track_info =
     (if ti_present track_info \<and> truthy (get_none (ti_get track_info ti_tuning))
      then ebind (py_len (get_none (ti_get track_info ti_tuning))) (\<lambda>n. Inr (JInt n))
      else Inr (get_or (d_strings data) (JInt 6)))"

text \<open>Line 141.\<close>

definition resolve_tuning :: "TabDocument \<Rightarrow> TrackInfo option \<Rightarrow> json" where
  "resolve_tuning data track_info =
     get_or (d_tuning data)
       (if ti_present track_info then get_none (ti_get track_info ti_tuning) else JNull)"

text \<open>Lines 143 to 147.\<close>

definition resolve_is_drums :: "TabDocument \<Rightarrow> TrackInfo option \<Rightarrow> error + bool" where
  "resolve_is_drums data track_info =
     ebind (if ti_present track_info
            then drum_in_lower (get_or (ti_get track_info ti_instrument) (JStr []))
            else Inr False)
       (\<lambda>is_drums1.
          if \<not> is_drums1 \<and> truthy (get_none (d_instrument data))
          then drum_in_lower (get_or (d_instrument data) (JStr []))
          else Inr is_drums1)"

text \<open>Lines 150 to 157: the scan of the first 30 measures, with \<^verbatim>\<open>max_string\<close> as the
  state of the four nested loops.\<close>

definition scan_note :: "int \<Rightarrow> Note \<Rightarrow> error + int" where
  "scan_note max_string n =
     ebind (int_float (get_or (n_string n) (JInt 0))) (\<lambda>i. Inr (max max_string (i + 1)))"

definition scan_beat :: "int \<Rightarrow> Beat \<Rightarrow> error + int" where
  "scan_beat max_string b = efold scan_note max_string (get_or (b_notes b) [])"

definition scan_voice :: "int \<Rightarrow> Voice \<Rightarrow> error + int" where
  "scan_voice max_string v = efold scan_beat max_string (get_or (v_beats v) [])"

definition scan_measure :: "int \<Rightarrow> Measure \<Rightarrow> error + int" where
  "scan_measure max_string m = efold scan_voice max_string (get_or (m_voices m) [])"

definition drum_strings :: "Measure list \<Rightarrow> error + json" where
  "drum_strings ms =
     ebind (efold scan_measure 0 (take 30 ms)) (\<lambda>max_string. Inr (JInt (max max_string 5)))"

text \<open>Lines 137 to 157 together: \<^verbatim>\<open>num_strings\<close> and \<^verbatim>\<open>is_drums\<close>.\<close>

definition resolve_strings :: "TabDocument \<Rightarrow> TrackInfo option \<Rightarrow> error + json \<times> bool" where
  "resolve_strings data track_info =
     ebind (declared_strings data track_info)
       (\<lambda>declared.
          ebind (resolve_is_drums data track_info)
            (\<lambda>drums.
               if drums
               then ebind (drum_strings (get_or (d_measures data) [])) (\<lambda>n. Inr (n, True))
               else Inr (declared, False)))"

section \<open>convert: the page header\<close>

fun join_sp :: "string list \<Rightarrow> string" where
  "join_sp [] = []"
| "join_sp [x] = x"
| "join_sp (x # y # ys) = x @ '' '' @ join_sp (y # ys)"

text \<open>Lines 164 to 182: the drawing calls of the header and the value of \<^verbatim>\<open>y\<close> after it.\<close>

definition draw_header ::
  "TabDocument \<Rightarrow> TrackInfo option \<Rightarrow> json \<Rightarrow> bool \<Rightarrow> error + drawop list \<times> rat" where
  "draw_header data track_info tuning_v drums =
     (let y0 = page_height - margin;
          artist = (if ti_present track_info then get_or (ti_get track_info ti_artist) (JStr [])
                    else JStr []);
          title = (if ti_present track_info then get_or (ti_get track_info ti_title) (JStr [])
                   else JStr []);
          ops1 = SetFont ''Helvetica-Bold'' 16 #
                 (if truthy artist \<and> truthy title then [DrawString margin y0 (Header artist title)]
                  else []);
          y1 = y0 - 7 * mm;
          instrument = (if ti_present track_info
                        then get_or (ti_get track_info ti_instrument) (JStr [])
                        else get_or (d_instrument data) (JStr []));
          ops2 = [SetFont ''Helvetica'' 11, DrawString margin y1 (Raw instrument)];
          y2 = y1 - 5 * mm
      in ebind (if truthy tuning_v \<and> \<not> drums
                then ebind (py_iter tuning_v)
                       (\<lambda>xs. ebind (emap midi_name (rev xs))
                          (\<lambda>names. Inr [SetFont ''Helvetica'' 9,
                                         DrawString margin y2
                                           (Lit (''Tuning: '' @ join_sp names))]))
                else Inr [])
           (\<lambda>ops3. Inr (ops1 @ ops2 @ ops3, y2 - 8 * mm)))"

section \<open>convert: the loop over the measures\<close>

text \<open>What the loop reads and never changes, and the variables it updates.\<close>

record env =
  num_strings :: json
  is_drums :: bool
  tuning :: json
  automations :: Automations
  start_measure :: nat
  line_height :: rat

record cursor =
  current_x :: rat
  current_y :: rat
  measure_count :: nat
  current_signature :: json
  last_shown_tempo :: json
  is_first_line :: bool
  cnv :: canvas

text \<open>Lines 202 to 211: a full line starts the next one, on a new page when the next line
  would not fit above the bottom margin.\<close>

definition wrap_line :: "env \<Rightarrow> cursor \<Rightarrow> cursor" where
  "wrap_line e s =
     (if measure_count s \<ge> measures_per_line then
        (let y' = current_y s - line_height e in
         if y' < margin + line_height e
         then s\<lparr>current_x := tab_x_start, current_y := page_height - margin - 10 * mm,
                measure_count := 0, is_first_line := True, cnv := showPage (cnv s)\<rparr>
         else s\<lparr>current_x := tab_x_start, current_y := y',
                measure_count := 0, is_first_line := False\<rparr>)
      else s)"

text \<open>Lines 213 to 215.\<close>

definition update_signature :: "json \<Rightarrow> Measure \<Rightarrow> json" where
  "update_signature current m =
     (let measure_signature = get_or (m_signature m) current
      in if truthy measure_signature then measure_signature else current)"

text \<open>Lines 218 to 231: the labels of the strings, left of the line.\<close>

definition drum_labels :: "string list" where
  "drum_labels = [''HH'', ''SD'', ''BD'', ''T1'', ''T2'', ''CR'', ''RD'', ''CH'']"

definition label_at :: "rat \<Rightarrow> nat \<Rightarrow> pytext \<Rightarrow> drawop" where
  "label_at y i label =
     DrawRightString (tab_x_start - 3 * mm) (y - of_nat i * string_spacing - 2) label"

definition string_labels :: "env \<Rightarrow> rat \<Rightarrow> error + drawop list" where
  "string_labels e y =
     ebind
       (if is_drums e then
          ebind (py_index_int (num_strings e))
            (\<lambda>n. Inr (map (\<lambda>i. label_at y i
                                  (if i < length drum_labels then Lit (drum_labels ! i)
                                   else StrOf (JInt (int i + 1))))
                         (py_range n)))
        else if truthy (tuning e) then
          ebind (py_iter (tuning e))
            (\<lambda>xs. ebind (emap midi_name xs)
               (\<lambda>names. Inr (map (\<lambda>(i, label). label_at y i (Lit label))
                                (zip [0 ..< length names] names))))
        else
          ebind (py_index_int (num_strings e))
            (\<lambda>n. let names = py_slice_to [''e'', ''B'', ''G'', ''D'', ''A'', ''E''] n
                  in Inr (map (\<lambda>(i, label). label_at y i (Lit label))
                            (zip [0 ..< length names] names))))
       (\<lambda>labels. Inr ([SetFont ''Helvetica-Bold'' 8, SetFillColor Black] @ labels))"

text \<open>Lines 233 and 234.\<close>

definition time_signature_ops :: "env \<Rightarrow> cursor \<Rightarrow> nat \<Rightarrow> error + drawop list" where
  "time_signature_ops e s measure_idx =
     (if truthy (current_signature s) \<and> (is_first_line s \<or> measure_idx = start_measure e)
      then draw_time_signature (tab_x_start - 10 * mm) (current_y s) (current_signature s)
             (num_strings e)
      else Inr [])"

text \<open>Lines 236 to 239: the calls drawn and the new \<^verbatim>\<open>last_shown_tempo\<close>.\<close>

definition tempo_ops :: "env \<Rightarrow> cursor \<Rightarrow> nat \<Rightarrow> error + drawop list \<times> json" where
  "tempo_ops e s measure_idx =
     ebind (get_tempo_at_measure (automations e) measure_idx)
       (\<lambda>current_tempo.
          if \<not> py_eq current_tempo (last_shown_tempo s)
          then Inr (draw_tempo_marking (current_x s) (current_y s) current_tempo, current_tempo)
          else Inr ([], last_shown_tempo s))"

text \<open>Lines 217 to 239: what is drawn at the first measure of a line.\<close>

definition line_head :: "env \<Rightarrow> cursor \<Rightarrow> nat \<Rightarrow> error + drawop list \<times> json" where
  "line_head e s measure_idx =
     (if measure_count s = 0 then
        ebind (string_labels e (current_y s))
          (\<lambda>labels.
             ebind (time_signature_ops e s measure_idx)
               (\<lambda>sig_ops.
                  ebind (tempo_ops e s measure_idx)
                    (\<lambda>(tempo_drawn, shown). Inr (labels @ sig_ops @ tempo_drawn, shown))))
      else Inr ([], last_shown_tempo s))"

text \<open>Lines 241 to 257: the string lines, the two bar lines and the measure number.\<close>

definition measure_frame :: "env \<Rightarrow> cursor \<Rightarrow> nat \<Rightarrow> error + drawop list" where
  "measure_frame e s measure_idx =
     (let x = current_x s; y = current_y s in
      ebind (py_index_int (num_strings e))
        (\<lambda>n. ebind (py_num (num_strings e))
           (\<lambda>k. let bottom_y = y - (k - 1) * string_spacing
                 in Inr ([SetStrokeColor Gray, SetLineWidth (5 / 10)] @
                         map (\<lambda>i. Line x (y - of_nat i * string_spacing)
                                    (x + measure_width) (y - of_nat i * string_spacing))
                           (py_range n) @
                         [SetStrokeColor Black, SetLineWidth 1,
                          Line x y x bottom_y,
                          Line (x + measure_width) y (x + measure_width) bottom_y,
                          SetFont ''Helvetica'' 7, SetFillColor Gray,
                          DrawString (x + 1 * mm) (y + 3 * mm) (StrOf (JInt (int measure_idx + 1))),
                          SetFillColor Black]))))"

text \<open>Line 263: the duration fraction of one beat, \<^verbatim>\<open>duration[0] / duration[1]\<close>.\<close>

definition duration_fraction :: "Beat \<Rightarrow> error + rat" where
  "duration_fraction b =
     (let duration = get_or (b_duration b) (JArr [JInt 1, JInt 4])
      in ebind (py_index duration 0)
           (\<lambda>num. ebind (py_index duration 1) (\<lambda>den. py_truediv num den)))"

text \<open>Lines 263 to 265: the sum of the fractions, 1 when the sum is 0.\<close>

definition total_duration :: "Beat list \<Rightarrow> error + rat" where
  "total_duration beats =
     ebind (emap duration_fraction beats)
       (\<lambda>fs. Inr (if sum_list fs = 0 then 1 else sum_list fs))"

text \<open>Lines 271 to 273: the width given to one beat.\<close>

definition beat_width :: "rat \<Rightarrow> rat \<Rightarrow> Beat \<Rightarrow> error + rat" where
  "beat_width usable_measure_width total_dur b =
     ebind (duration_fraction b)
       (\<lambda>f. let duration_ratio = f / total_dur in Inr (usable_measure_width * duration_ratio))"

text \<open>Lines 281 to 299, the body of the loop over the notes of a beat: the calls drawn
  for the note and whether it sets \<^verbatim>\<open>has_notes\<close>.\<close>

definition draw_note :: "env \<Rightarrow> rat \<Rightarrow> rat \<Rightarrow> Note \<Rightarrow> error + drawop list \<times> bool" where
  "draw_note e note_x y n =
     (if truthy (get_none (n_rest n)) then Inr ([], False)
      else
        (let fret = get_none (n_fret n);
             string = get_or (n_string n) (JInt 0)
         in if fret \<noteq> JNull then
              ebind (int_float string)
                (\<lambda>string_idx.
                   ebind (py_num (num_strings e))
                     (\<lambda>k. if of_int string_idx < k then
                             (let note_y = y - of_int string_idx * string_spacing
                              in Inr ([SetFillColor White,
                                       RectBehind (StrOf fret) ''Courier-Bold'' 9 note_x note_y,
                                       SetFillColor Black,
                                       SetFont ''Courier-Bold'' 9,
                                       DrawCentredString note_x (note_y - 25 / 10) (StrOf fret)],
                                      True))
                           else Inr ([], True)))
            else Inr ([], False)))"

text \<open>Lines 278 to 299: the loop over the notes, with the calls drawn so far and
  \<^verbatim>\<open>has_notes\<close> as its state.\<close>

definition draw_notes :: "env \<Rightarrow> rat \<Rightarrow> rat \<Rightarrow> Note list \<Rightarrow> error + drawop list \<times> bool" where
  "draw_notes e note_x y notes =
     efold (\<lambda>(ops, has_notes) n.
              ebind (draw_note e note_x y n)
                (\<lambda>(ops', drawn). Inr (ops @ ops', has_notes \<or> drawn)))
       ([], False) notes"

text \<open>Lines 301 to 306.\<close>

definition stem_ops :: "env \<Rightarrow> rat \<Rightarrow> rat \<Rightarrow> Beat \<Rightarrow> bool \<Rightarrow> error + drawop list" where
  "stem_ops e note_x y b has_notes =
     (if has_notes then
        ebind (py_num (num_strings e))
          (\<lambda>k. let duration_type = get_or (b_type b) (JInt 4);
                    rhythm_y = y - (k - 1) * string_spacing
                in draw_rhythm_stem note_x rhythm_y duration_type)
      else Inr [])"

text \<open>Lines 271 to 308, the body of the loop over the beats: the calls drawn for the beat
  at \<^verbatim>\<open>beat_x\<close> and the width the beat takes.\<close>

definition draw_beat ::
  "env \<Rightarrow> rat \<Rightarrow> rat \<Rightarrow> rat \<Rightarrow> rat \<Rightarrow> Beat \<Rightarrow> error + drawop list \<times> rat" where
  "draw_beat e y usable_measure_width total_dur beat_x b =
     ebind (beat_width usable_measure_width total_dur b)
       (\<lambda>w. let note_x = beat_x + w * (3 / 10) in
             ebind (draw_notes e note_x y (get_or (b_notes b) []))
               (\<lambda>(note_ops, has_notes).
                  ebind (stem_ops e note_x y b has_notes)
                    (\<lambda>stem. Inr (note_ops @ stem, w))))"

text \<open>Lines 270 to 308: the loop over the beats, with the calls drawn so far and
  \<^verbatim>\<open>beat_x\<close> as its state.\<close>

definition draw_beats ::
  "env \<Rightarrow> rat \<Rightarrow> rat \<Rightarrow> rat \<Rightarrow> rat \<Rightarrow> Beat list \<Rightarrow> error + drawop list \<times> rat" where
  "draw_beats e y usable_measure_width total_dur beat_x0 beats =
     efold (\<lambda>(ops, beat_x) b.
              ebind (draw_beat e y usable_measure_width total_dur beat_x b)
                (\<lambda>(ops', w). Inr (ops @ ops', beat_x + w)))
       ([], beat_x0) beats"

text \<open>Lines 259 to 308: the content of a measure, taken from its first voice.\<close>

definition measure_detail :: "env \<Rightarrow> cursor \<Rightarrow> Measure \<Rightarrow> error + drawop list" where
  "measure_detail e s m =
     (case get_or (m_voices m) [] of
        [] \<Rightarrow> Inr []
      | v # vs \<Rightarrow>
          (case get_or (v_beats v) [] of
             [] \<Rightarrow> Inr []
           | b # bs \<Rightarrow>
               ebind (total_duration (b # bs))
                 (\<lambda>total_dur.
                    let usable_measure_width = measure_width - 6 * mm;
                        beat_x = current_x s + 3 * mm
                    in ebind (draw_beats e (current_y s) usable_measure_width total_dur beat_x (b # bs))
                         (\<lambda>(ops, beat_x'). Inr ops))))"

text \<open>Lines 202 to 215: the cursor at which the measure is drawn.\<close>

definition place :: "env \<Rightarrow> cursor \<Rightarrow> Measure \<Rightarrow> cursor" where
  "place e s0 m =
     (let s1 = wrap_line e s0
      in s1\<lparr>current_signature := update_signature (current_signature s1) m\<rparr>)"

text \<open>Lines 217 to 308: everything drawn for the measure, and the new
  \<^verbatim>\<open>last_shown_tempo\<close>.\<close>

definition measure_ops :: "env \<Rightarrow> cursor \<Rightarrow> nat \<Rightarrow> Measure \<Rightarrow> error + drawop list \<times> json" where
  "measure_ops e s measure_idx m =
     ebind (line_head e s measure_idx)
       (\<lambda>(head, shown).
          ebind (measure_frame e s measure_idx)
            (\<lambda>frame.
               ebind (measure_detail e s m)
                 (\<lambda>detail. Inr (head @ frame @ detail, shown))))"

text \<open>Lines 200 to 311: the body of the loop over the measures.\<close>

definition measure_step :: "env \<Rightarrow> cursor \<Rightarrow> nat \<Rightarrow> Measure \<Rightarrow> error + cursor" where
  "measure_step e s0 measure_idx m =
     (let s = place e s0 m
      in ebind (measure_ops e s measure_idx m)
           (\<lambda>(ops, shown).
              Inr (s\<lparr>current_x := current_x s + measure_width,
                      measure_count := Suc (measure_count s),
                      last_shown_tempo := shown,
                      cnv := emit ops (cnv s)\<rparr>)))"

text \<open>Line 199: \<^verbatim>\<open>for measure_idx in range(start_measure, len(measures))\<close>, over the
  measures from \<^verbatim>\<open>measure_idx\<close> on.\<close>

fun render_measures :: "env \<Rightarrow> cursor \<Rightarrow> nat \<Rightarrow> Measure list \<Rightarrow> error + cursor" where
  "render_measures e s measure_idx [] = Inr s"
| "render_measures e s measure_idx (m # ms) =
     ebind (measure_step e s measure_idx m) (\<lambda>s'. render_measures e s' (Suc measure_idx) ms)"

section \<open>convert\<close>

text \<open>
  \<^verbatim>\<open>convert\<close> returns \<^verbatim>\<open>None\<close> without creating a canvas, or the output path after
  saving the canvas; the model returns the pages saved. Reading the JSON file and writing
  the PDF file are outside the model.
\<close>

datatype outcome = NoOutput | Written "drawop list list"

text \<open>Lines 135 to 197: everything before the loop, that is the settings the loop reads
  and the cursor it starts from, on a canvas that holds the header.\<close>

definition prepare :: "TabDocument \<Rightarrow> TrackInfo option \<Rightarrow> error + env \<times> cursor" where
  "prepare data track_info =
     (let ms = get_or (d_measures data) [];
          autom = get_or (d_automations data) \<lparr>a_tempo = None\<rparr>
      in ebind (resolve_strings data track_info)
           (\<lambda>(strings, drums).
              let tuning_v = resolve_tuning data track_info;
                  start = find_first_content_measure ms
              in ebind (draw_header data track_info tuning_v drums)
                   (\<lambda>(header, y).
                      ebind (get_tempo_at_measure autom start)
                        (\<lambda>initial_bpm.
                           ebind (py_num strings)
                             (\<lambda>k. Inr (\<lparr>num_strings = strings, is_drums = drums,
                                         tuning = tuning_v, automations = autom,
                                         start_measure = start,
                                         line_height = k * string_spacing + line_spacing\<rparr>,
                                        \<lparr>current_x = tab_x_start, current_y = y,
                                         measure_count = 0, current_signature = JNull,
                                         last_shown_tempo = JNull, is_first_line = True,
                                         cnv = emit header new_canvas\<rparr>))))))"

definition convert :: "TabDocument \<Rightarrow> TrackInfo option \<Rightarrow> error + outcome" where
  "convert data track_info =
     (let ms = get_or (d_measures data) [] in
      if ms = [] then Inr NoOutput
      else
        ebind (prepare data track_info)
          (\<lambda>(e, s). ebind (render_measures e s (start_measure e) (drop (start_measure e) ms))
                       (\<lambda>s'. Inr (Written (save (cnv s'))))))"

section \<open>Observing a render\<close>

text \<open>The cursors at which the loop draws the measures, one for each iteration it
  starts: the value of \<^const>\<open>place\<close> there.\<close>

fun placements :: "env \<Rightarrow> cursor \<Rightarrow> nat \<Rightarrow> Measure list \<Rightarrow> cursor list" where
  "placements e s measure_idx [] = []"
| "placements e s measure_idx (m # ms) =
     place e s m #
     (case measure_step e s measure_idx m of
        Inl err \<Rightarrow> []
      | Inr s' \<Rightarrow> placements e s' (Suc measure_idx) ms)"

text \<open>
  What a list of drawing calls shows. Each kind of marking is recognised by a call that
  only its drawing code makes: the tempo marking by its text, the time signature by its
  font, the measure number by a left-aligned \<^verbatim>\<open>str\<close> of an integer, the fret of a note
  by the patch behind it, the rhythm stem by its line width.
\<close>

fun tempo_mark_of :: "drawop \<Rightarrow> (rat \<times> rat \<times> json) list" where
  "tempo_mark_of (DrawString x y (TempoMark bpm)) = [(x, y, bpm)]"
| "tempo_mark_of op = []"

definition tempo_marks :: "drawop list \<Rightarrow> (rat \<times> rat \<times> json) list" where
  "tempo_marks ops = concat (map tempo_mark_of ops)"

definition signature_count :: "drawop list \<Rightarrow> nat" where
  "signature_count ops = length (filter (\<lambda>op. op = SetFont ''Helvetica-Bold'' 10) ops)"

fun measure_number_of :: "drawop \<Rightarrow> (int \<times> rat \<times> rat) list" where
  "measure_number_of (DrawString x y (StrOf (JInt n))) = [(n, x, y)]"
| "measure_number_of op = []"

definition measure_numbers :: "drawop list \<Rightarrow> (int \<times> rat \<times> rat) list" where
  "measure_numbers ops = concat (map measure_number_of ops)"

definition numbers_at :: "drawop list \<Rightarrow> (int \<times> rat) list" where
  "numbers_at ops = map (\<lambda>(n, x, y). (n, y)) (measure_numbers ops)"

fun fret_of :: "drawop \<Rightarrow> (rat \<times> rat \<times> pytext) list" where
  "fret_of (RectBehind t font sz x y) = [(x, y, t)]"
| "fret_of op = []"

definition drawn_frets :: "drawop list \<Rightarrow> (rat \<times> rat \<times> pytext) list" where
  "drawn_frets ops = concat (map fret_of ops)"

definition stem_count :: "drawop list \<Rightarrow> nat" where
  "stem_count ops = length (filter (\<lambda>op. op = SetLineWidth (8 / 10)) ops)"

fun is_line :: "drawop \<Rightarrow> bool" where
  "is_line (Line x1 y1 x2 y2) = True"
| "is_line op = False"

text \<open>
  The drawing calls each part of the loop body can make.
\<close>

fun is_label_op :: "drawop \<Rightarrow> bool" where
  "is_label_op (SetFont f sz) = (f = ''Helvetica-Bold'' \<and> sz = 8)"
| "is_label_op (SetFillColor c) = True"
| "is_label_op (DrawRightString x y t) = True"
| "is_label_op op = False"

fun is_frame_op :: "drawop \<Rightarrow> bool" where
  "is_frame_op (SetStrokeColor c) = True"
| "is_frame_op (SetLineWidth w) = (w = 5 / 10 \<or> w = 1)"
| "is_frame_op (Line x1 y1 x2 y2) = True"
| "is_frame_op (SetFont f sz) = (f = ''Helvetica'' \<and> sz = 7)"
| "is_frame_op (SetFillColor c) = True"
| "is_frame_op (DrawString x y t) = (case t of StrOf (JInt n) \<Rightarrow> True | _ \<Rightarrow> False)"
| "is_frame_op op = False"

fun is_note_op :: "drawop \<Rightarrow> bool" where
  "is_note_op (SetFillColor c) = True"
| "is_note_op (RectBehind t f sz x y) = True"
| "is_note_op (SetFont f sz) = (f = ''Courier-Bold'' \<and> sz = 9)"
| "is_note_op (DrawCentredString x y t) = True"
| "is_note_op op = False"

fun is_stem_op :: "drawop \<Rightarrow> bool" where
  "is_stem_op (SetLineWidth w) = (w = 8 / 10)"
| "is_stem_op (Line x1 y1 x2 y2) = True"
| "is_stem_op op = False"

definition is_detail_op :: "drawop \<Rightarrow> bool" where
  "is_detail_op op = (is_note_op op \<or> is_stem_op op)"

section \<open>The specification's notions\<close>

subsection \<open>Time signatures\<close>



subsection \<open>Tempo breakpoints\<close>

text \<open>
  The measure index of a breakpoint when it is a number, the breakpoints being ordered by
  it, and the bpm of the last breakpoint at or before a measure.
\<close>

definition tempo_measure :: "TempoChange \<Rightarrow> rat option" where
  "tempo_measure tc = num_of (get_or (tc_measure tc) (JInt 0))"

definition breakpoints_ordered :: "TempoChange list \<Rightarrow> bool" where
  "breakpoints_ordered tcs =
     (list_all (\<lambda>tc. tempo_measure tc \<noteq> None) tcs \<and>
      sorted (map (\<lambda>tc. the (tempo_measure tc)) tcs))"

definition reached :: "nat \<Rightarrow> TempoChange \<Rightarrow> bool" where
  "reached measure_idx tc =
     (case tempo_measure tc of None \<Rightarrow> False | Some r \<Rightarrow> r \<le> of_nat measure_idx)"

definition active_tempo :: "TempoChange list \<Rightarrow> nat \<Rightarrow> json" where
  "active_tempo tcs measure_idx =
     (case rev (filter (reached measure_idx) tcs) of
        [] \<Rightarrow> JInt 120
      | tc # earlier \<Rightarrow> get_or (tc_bpm tc) (JInt 120))"

subsection \<open>Notes and stems\<close>

text \<open>
  A note sounds when it is not a rest and has a fret. The flags of a stem are strokes that
  start at the given offsets above the lower end of the stem.
\<close>

definition sounding :: "Note \<Rightarrow> bool" where
  "sounding n = (\<not> truthy (get_none (n_rest n)) \<and> get_none (n_fret n) \<noteq> JNull)"

definition flag_offsets :: "rat \<Rightarrow> rat list" where
  "flag_offsets d =
     (if d < 8 then []
      else if d = 8 then [0]
      else if d = 16 then [0, (12 / 10) * mm]
      else if 32 \<le> d then [0, 1 * mm, 2 * mm]
      else [])"

definition flag_stroke :: "rat \<Rightarrow> rat \<Rightarrow> rat \<Rightarrow> drawop" where
  "flag_stroke x flag_y offset =
     Line x (flag_y + offset) (x + 2 * mm) (flag_y + offset + (15 / 10) * mm)"

subsection \<open>The notes the percussion scan reads\<close>

definition notes_of_beat :: "Beat \<Rightarrow> Note list" where
  "notes_of_beat b = get_or (b_notes b) []"

definition notes_of_voice :: "Voice \<Rightarrow> Note list" where
  "notes_of_voice v = concat (map notes_of_beat (get_or (v_beats v) []))"

definition notes_of_measure :: "Measure \<Rightarrow> Note list" where
  "notes_of_measure m = concat (map notes_of_voice (get_or (m_voices m) []))"

definition scanned_notes :: "Measure list \<Rightarrow> Note list" where
  "scanned_notes ms = concat (map notes_of_measure (take 30 ms))"

definition string_index :: "Note \<Rightarrow> error + int" where
  "string_index n = int_float (get_or (n_string n) (JInt 0))"

definition raised :: "int \<Rightarrow> int list \<Rightarrow> int" where
  "raised max_string idxs = fold (\<lambda>i m. max m (i + 1)) idxs max_string"

definition label_has_drum :: "json option \<Rightarrow> bool" where
  "label_has_drum v = (case v of Some (JStr s) \<Rightarrow> contains ''drum'' (lower s) | _ \<Rightarrow> False)"

subsection \<open>Malformed notes\<close>

text \<open>
  A sounding note whose string index cannot be coerced, and a measure whose first voice
  holds one.
\<close>

definition malformed_note :: "Note \<Rightarrow> bool" where
  "malformed_note n = (sounding n \<and> isl (string_index n))"

definition has_malformed_note :: "Measure \<Rightarrow> bool" where
  "has_malformed_note m =
     (case get_or (m_voices m) [] of
        [] \<Rightarrow> False
      | v # vs \<Rightarrow> list_ex (\<lambda>b. list_ex malformed_note (notes_of_beat b)) (get_or (v_beats v) []))"

section \<open>Example documents\<close>

definition empty_document :: TabDocument where
  "empty_document =
     \<lparr>d_measures = Some [], d_automations = None, d_strings = None, d_tuning = None,
      d_instrument = None\<rparr>"

text \<open>
  A document with the given measures and tempo changes and nothing else, rendered without
  track information.
\<close>

definition plain_document :: "Measure list \<Rightarrow> TempoChange list option \<Rightarrow> TabDocument" where
  "plain_document ms tempo =
     \<lparr>d_measures = Some ms, d_automations = Some \<lparr>a_tempo = tempo\<rparr>, d_strings = None,
      d_tuning = None, d_instrument = None\<rparr>"

text \<open>
  What \<^const>\<open>prepare\<close> returns for such a document: six strings, no tuning,
  and a header that holds the empty instrument name only.
\<close>

definition plain_env :: "TempoChange list option \<Rightarrow> env" where
  "plain_env tempo =
     \<lparr>num_strings = JInt 6, is_drums = False, tuning = JNull,
      automations = \<lparr>a_tempo = tempo\<rparr>, start_measure = 0,
      line_height = 6 * string_spacing + line_spacing\<rparr>"

definition plain_cursor :: cursor where
  "plain_cursor =
     \<lparr>current_x = tab_x_start, current_y = page_height - margin - 20 * mm,
      measure_count = 0, current_signature = JNull, last_shown_tempo = JNull,
      is_first_line = True,
      cnv = \<lparr>pages = [],
             code = [SetFont ''Helvetica-Bold'' 16, SetFont ''Helvetica'' 11,
                     DrawString margin (page_height - margin - 7 * mm) (Raw (JStr []))]\<rparr>\<rparr>"

text \<open>
  A measure that has nothing but a time signature, or not even that.
\<close>

definition sig_measure :: "json option \<Rightarrow> Measure" where
  "sig_measure sg = \<lparr>m_rest = None, m_signature = sg, m_voices = None\<rparr>"


definition five_measures :: "Measure list" where
  "five_measures = sig_measure (Some (JArr [JInt 4, JInt 4])) # replicate 4 (sig_measure None)"

text \<open>
  A measure of one voice, one quarter beat and one note.
\<close>

definition one_note_measure :: "json \<Rightarrow> json \<Rightarrow> Measure" where
  "one_note_measure string fret =
     \<lparr>m_rest = None, m_signature = None,
      m_voices = Some [\<lparr>v_beats = Some [\<lparr>b_duration = Some (JArr [JInt 1, JInt 4]),
                                          b_type = Some (JInt 4), b_beamStart = None,
                                          b_beamStop = None,
                                          b_notes = Some [\<lparr>n_rest = None, n_fret = Some fret,
                                                           n_string = Some string\<rparr>]\<rparr>]\<rparr>]\<rparr>"


definition tempo_at :: "int \<Rightarrow> int \<Rightarrow> TempoChange" where
  "tempo_at i bpm = \<lparr>tc_measure = Some (JInt i), tc_bpm = Some (JInt bpm)\<rparr>"

definition late_tempo :: "TempoChange list" where
  "late_tempo = [tempo_at 0 120, tempo_at 2 140]"

definition later_tempo :: "TempoChange list" where
  "later_tempo = [tempo_at 2 140]"

text \<open>
  A percussion track: the label says so, the declared string count is 4, and the notes
  use the strings 2, 6.0, 4 and "1".
\<close>

definition drum_notes :: "json list \<Rightarrow> Measure" where
  "drum_notes strings =
     \<lparr>m_rest = None, m_signature = None,
      m_voices = Some [\<lparr>v_beats = Some [\<lparr>b_duration = None, b_type = None, b_beamStart = None,
                                          b_beamStop = None,
                                          b_notes = Some (map (\<lambda>s. \<lparr>n_rest = None, n_fret = Some (JInt 42),
                                                                   n_string = Some s\<rparr>) strings)\<rparr>]\<rparr>]\<rparr>"

definition drum_document :: TabDocument where
  "drum_document =
     \<lparr>d_measures = Some [drum_notes [JInt 2, JFloat 6, JInt 4], drum_notes [JStr ''1'']],
      d_automations = None, d_strings = Some (JInt 4), d_tuning = None,
      d_instrument = Some (JStr ''Drums'')\<rparr>"

text \<open>
  Nine empty measures on 22 strings: a line is 88.4 mm high, and two lines fit on a
  page.
\<close>

definition nine_document :: TabDocument where
  "nine_document =
     \<lparr>d_measures = Some (replicate 9 (sig_measure None)), d_automations = None,
      d_strings = Some (JInt 22), d_tuning = None, d_instrument = None\<rparr>"

definition tall_env :: env where
  "tall_env =
     \<lparr>num_strings = JInt 22, is_drums = False, tuning = JNull,
      automations = \<lparr>a_tempo = None\<rparr>, start_measure = 0,
      line_height = 22 * string_spacing + line_spacing\<rparr>"

section \<open>Basic facts\<close>

lemma ebind_Inr [simp]: "ebind (Inr x) f = f x"
  by (simp add: ebind_def)

lemma ebind_Inl [simp]: "ebind (Inl e) f = Inl e"
  by (simp add: ebind_def)

lemma ebind_weak_cong: "m = m' \<Longrightarrow> ebind m f = ebind m' f"
  by simp

lemma ebind_eq_Inr: "ebind m f = Inr y \<longleftrightarrow> (\<exists>x. m = Inr x \<and> f x = Inr y)"
  by (cases m) auto

lemma isl_ebind: "isl (ebind m f) \<longleftrightarrow> isl m \<or> (\<exists>x. m = Inr x \<and> isl (f x))"
  by (cases m) auto


lemma emap_append:
  "emap f (xs @ ys) = ebind (emap f xs) (\<lambda>as. ebind (emap f ys) (\<lambda>bs. Inr (as @ bs)))"
proof (induction xs)
  case Nil
  then show ?case by (cases "emap f ys") simp_all
next
  case (Cons x xs)
  then show ?case
    by (cases "f x"; cases "emap f xs"; cases "emap f ys") simp_all
qed

lemma efold_invariant:
  assumes "efold f s xs = Inr s'" and "I s"
    and "\<And>s x s'. I s \<Longrightarrow> x \<in> set xs \<Longrightarrow> f s x = Inr s' \<Longrightarrow> I s'"
  shows "I s'"
  using assms
proof (induction xs arbitrary: s)
  case Nil
  then show ?case by simp
next
  case (Cons x xs)
  from Cons.prems(1) obtain s1 where s1: "f s x = Inr s1" and rest: "efold f s1 xs = Inr s'"
    by (auto simp: ebind_eq_Inr)
  have "I s1" using Cons.prems(2,3) s1 by auto
  moreover have "\<And>s y s'. I s \<Longrightarrow> y \<in> set xs \<Longrightarrow> f s y = Inr s' \<Longrightarrow> I s'"
    using Cons.prems(3) by auto
  ultimately show ?case using Cons.IH rest by blast
qed

lemma efold_fails:
  "x \<in> set xs \<Longrightarrow> (\<And>s. isl (f s x)) \<Longrightarrow> isl (efold f s xs)"
proof (induction xs arbitrary: s)
  case Nil
  then show ?case by simp
next
  case (Cons a xs)
  show ?case
  proof (cases "f s a")
    case (Inl err)
    then show ?thesis by simp
  next
    case (Inr s')
    with Cons.prems(2) [of s] have "x \<noteq> a" by auto
    with Cons.prems(1) have "x \<in> set xs" by simp
    with Cons.IH Cons.prems(2) Inr show ?thesis by simp
  qed
qed

text \<open>
  The definitions to unfold when a render is evaluated on a concrete document.
\<close>

lemmas layout_defs = mm_def page_width_def page_height_def margin_def string_spacing_def
  measures_per_line_def line_spacing_def usable_width_def measure_width_def tab_x_start_def

lemmas prepare_defs = prepare_def get_or_def get_none_def resolve_strings_def
  declared_strings_def resolve_is_drums_def resolve_tuning_def ti_present_def ti_get_def
  find_first_content_measure_def draw_header_def get_tempo_at_measure_def py_num_def
  drum_strings_def scan_measure_def scan_voice_def scan_beat_def scan_note_def int_float_def
  emit_def new_canvas_def

lemmas step_defs = measure_step_def place_def measure_ops_def wrap_line_def
  update_signature_def line_head_def string_labels_def time_signature_ops_def tempo_ops_def
  measure_frame_def measure_detail_def total_duration_def duration_fraction_def draw_beats_def
  draw_beat_def beat_width_def draw_notes_def draw_note_def stem_ops_def draw_rhythm_stem_def
  stem_flags_def draw_tempo_marking_def draw_time_signature_def unpack2_def py_truediv_def
  int_float_def py_slice_to_def py_range_def label_at_def emit_def showPage_def
  drum_labels_def get_or_def get_none_def get_tempo_at_measure_def py_num_def

lemmas example_defs = plain_document_def plain_env_def plain_cursor_def sig_measure_def
  one_note_measure_def

lemmas eval_defs = convert_def prepare_defs step_defs save_def layout_defs

subsection \<open>What prepare returns\<close>

lemma prepare_cursor:
  assumes "prepare data track_info = Inr (e, s0)"
  shows "measure_count s0 = 0 \<and> last_shown_tempo s0 = JNull \<and> current_x s0 = tab_x_start \<and>
         is_first_line s0 \<and> current_signature s0 = JNull \<and> pages (cnv s0) = []"
  using assms
  by (auto simp: prepare_def Let_def ebind_eq_Inr emit_def new_canvas_def split: prod.splits)

lemma prepare_start:
  assumes "prepare data track_info = Inr (e, s0)"
  shows "start_measure e = find_first_content_measure (get_or (d_measures data) [])"
  using assms
  by (auto simp: prepare_def Let_def ebind_eq_Inr split: prod.splits)

lemma prepare_strings:
  assumes "prepare data track_info = Inr (e, s0)"
  shows "resolve_strings data track_info = Inr (num_strings e, is_drums e)"
  using assms
  by (auto simp: prepare_def Let_def ebind_eq_Inr split: prod.splits)

lemma prepare_plain:
  assumes "find_first_content_measure ms = 0"
    and "get_tempo_at_measure \<lparr>a_tempo = tempo\<rparr> 0 = Inr bpm"
  shows "prepare (plain_document ms tempo) None = Inr (plain_env tempo, plain_cursor)"
  using assms
  by (simp add: prepare_def plain_document_def plain_env_def plain_cursor_def
      resolve_strings_def declared_strings_def resolve_is_drums_def resolve_tuning_def
      ti_present_def ti_get_def draw_header_def get_or_def get_none_def py_num_def emit_def
      new_canvas_def Let_def)

subsection \<open>The cursor from one measure to the next\<close>


lemma place_same_line:
  "measure_count s0 < measures_per_line \<Longrightarrow>
   place e s0 m = s0\<lparr>current_signature := update_signature (current_signature s0) m\<rparr>"
  by (simp add: place_def wrap_line_def Let_def)

lemma place_layout:
  "place e s m =
     (if measures_per_line \<le> measure_count s
      then (if current_y s - line_height e < margin + line_height e
            then s\<lparr>current_x := tab_x_start, current_y := page_height - margin - 10 * mm,
                   measure_count := 0, is_first_line := True, cnv := showPage (cnv s),
                   current_signature := update_signature (current_signature s) m\<rparr>
            else s\<lparr>current_x := tab_x_start, current_y := current_y s - line_height e,
                   measure_count := 0, is_first_line := False,
                   current_signature := update_signature (current_signature s) m\<rparr>)
      else s\<lparr>current_signature := update_signature (current_signature s) m\<rparr>)"
  by (simp add: place_def wrap_line_def Let_def)

lemma place_first_line:
  "is_first_line (place e s0 m) =
     (if measures_per_line \<le> measure_count s0
      then current_y s0 - line_height e < margin + line_height e
      else is_first_line s0)"
  by (simp add: place_def wrap_line_def Let_def)

lemma place_pages:
  "length (pages (cnv (place e s0 m))) =
     length (pages (cnv s0)) +
     (if measures_per_line \<le> measure_count s0 \<and>
         current_y s0 - line_height e < margin + line_height e
      then 1 else 0)"
  by (simp add: place_def wrap_line_def showPage_def Let_def)


lemma measure_step_layout:
  assumes "measure_step e s idx m = Inr s'"
  shows "current_x s' = current_x (place e s m) + measure_width \<and>
         current_y s' = current_y (place e s m) \<and>
         measure_count s' = Suc (measure_count (place e s m)) \<and>
         pages (cnv s') = pages (cnv (place e s m))"
  using assms
  by (auto simp: measure_step_def Let_def ebind_eq_Inr emit_def split: prod.splits)

lemma placements_next:
  assumes "Suc k < length (placements e s idx ms)"
  shows "\<exists>s' m. placements e s idx ms ! Suc k = place e s' m \<and>
           current_x s' = current_x (placements e s idx ms ! k) + measure_width \<and>
           current_y s' = current_y (placements e s idx ms ! k) \<and>
           measure_count s' = Suc (measure_count (placements e s idx ms ! k)) \<and>
           pages (cnv s') = pages (cnv (placements e s idx ms ! k))"
  using assms
proof (induction ms arbitrary: s idx k)
  case Nil
  then show ?case by simp
next
  case (Cons m ms)
  from Cons.prems obtain s1 where step: "measure_step e s idx m = Inr s1"
    and len: "k < length (placements e s1 (Suc idx) ms)"
    by (auto split: sum.splits)
  show ?case
  proof (cases k)
    case 0
    with len obtain m1 ms1 where "ms = m1 # ms1"
      by (cases ms) auto
    with 0 step measure_step_layout [OF step] show ?thesis
      by auto
  next
    case (Suc j)
    with len Cons.IH [of j s1 "Suc idx"] step show ?thesis
      by simp
  qed
qed

lemma placements_count:
  assumes "measure_count s = 0" and "k < length (placements e s idx ms)"
  shows "measure_count (placements e s idx ms ! k) = k mod measures_per_line"
  using assms(2)
proof (induction k)
  case 0
  then obtain m ms' where "ms = m # ms'" by (cases ms) auto
  with assms(1) show ?case
    by (simp add: place_layout measures_per_line_def)
next
  case (Suc k)
  then have count: "measure_count (placements e s idx ms ! k) = k mod measures_per_line"
    by simp
  from placements_next [OF Suc.prems] obtain s' m where
    next_one: "placements e s idx ms ! Suc k = place e s' m"
    and s': "measure_count s' = Suc (measure_count (placements e s idx ms ! k))"
    by blast
  show ?case
  proof (cases "Suc (k mod measures_per_line) = measures_per_line")
    case True
    with next_one s' count show ?thesis
      by (simp add: place_layout mod_Suc measures_per_line_def)
  next
    case False
    moreover have "k mod measures_per_line < measures_per_line"
      by (simp add: measures_per_line_def)
    ultimately have "\<not> measures_per_line \<le> Suc (k mod measures_per_line)"
      by simp
    with False next_one s' count show ?thesis
      by (simp add: place_layout mod_Suc)
  qed
qed

subsection \<open>The drawing calls of each part of the loop body\<close>

lemma draw_note_ops:
  "draw_note e x y n = Inr (ops, d) \<Longrightarrow> list_all is_note_op ops"
  by (auto simp: draw_note_def Let_def ebind_eq_Inr split: if_splits)

lemma draw_notes_ops:
  assumes "draw_notes e x y ns = Inr (ops, h)"
  shows "list_all is_note_op ops"
proof -
  have "list_all is_note_op (fst (ops, h))"
    using assms unfolding draw_notes_def
  proof (rule efold_invariant)
    show "list_all is_note_op (fst ([], False))" by simp
  next
    fix s n s'
    assume "list_all is_note_op (fst s)"
      and "(case s of (ops, has_notes) \<Rightarrow> \<lambda>n. ebind (draw_note e x y n)
              (\<lambda>(ops', drawn). Inr (ops @ ops', has_notes \<or> drawn))) n = Inr s'"
    then show "list_all is_note_op (fst s')"
      by (auto simp: ebind_eq_Inr split: prod.splits dest: draw_note_ops)
  qed
  then show ?thesis by simp
qed

lemma stem_flags_ops: "list_all is_stem_op (stem_flags x fy d)"
  by (simp add: stem_flags_def)

lemma draw_rhythm_stem_ops:
  "draw_rhythm_stem x y dt = Inr ops \<Longrightarrow> list_all is_stem_op ops"
  by (auto simp: draw_rhythm_stem_def Let_def ebind_eq_Inr stem_flags_ops split: if_splits)

lemma stem_ops_ops:
  "stem_ops e x y b h = Inr ops \<Longrightarrow> list_all is_stem_op ops"
  by (auto simp: stem_ops_def Let_def ebind_eq_Inr split: if_splits dest: draw_rhythm_stem_ops)

lemma draw_beat_ops:
  assumes "draw_beat e y umw t bx b = Inr (ops, w)"
  shows "list_all is_detail_op ops"
proof -
  from assms obtain note_ops h stem where
    "list_all is_note_op note_ops" "list_all is_stem_op stem" "ops = note_ops @ stem"
    by (auto simp: draw_beat_def Let_def ebind_eq_Inr split: prod.splits
        dest: draw_notes_ops stem_ops_ops)
  then show ?thesis
    by (auto simp: list_all_iff is_detail_op_def)
qed

lemma draw_beats_ops:
  assumes "draw_beats e y umw t bx bs = Inr (ops, bx')"
  shows "list_all is_detail_op ops"
proof -
  have "list_all is_detail_op (fst (ops, bx'))"
    using assms unfolding draw_beats_def
  proof (rule efold_invariant)
    show "list_all is_detail_op (fst ([], bx))" by simp
  next
    fix s b s'
    assume "list_all is_detail_op (fst s)"
      and "(case s of (ops, beat_x) \<Rightarrow> \<lambda>b. ebind (draw_beat e y umw t beat_x b)
              (\<lambda>(ops', w). Inr (ops @ ops', beat_x + w))) b = Inr s'"
    then show "list_all is_detail_op (fst s')"
      by (auto simp: ebind_eq_Inr split: prod.splits dest: draw_beat_ops)
  qed
  then show ?thesis by simp
qed

lemma measure_detail_ops:
  "measure_detail e s m = Inr ops \<Longrightarrow> list_all is_detail_op ops"
  by (auto simp: measure_detail_def Let_def ebind_eq_Inr split: list.splits prod.splits
      dest: draw_beats_ops)

lemma measure_frame_ops:
  "measure_frame e s idx = Inr ops \<Longrightarrow> list_all is_frame_op ops"
  by (auto simp: measure_frame_def Let_def ebind_eq_Inr list_all_iff)

lemma string_labels_ops:
  "string_labels e y = Inr ops \<Longrightarrow> list_all is_label_op ops"
  by (auto simp: string_labels_def Let_def ebind_eq_Inr list_all_iff label_at_def
      split: if_splits)

section \<open>Beat widths\<close>









section \<open>Failures while a measure is drawn\<close>

lemma draw_note_malformed: "malformed_note n \<Longrightarrow> isl (draw_note e x y n)"
  by (cases "int_float (get_or (n_string n) (JInt 0))")
    (auto simp: malformed_note_def sounding_def string_index_def draw_note_def Let_def)

lemma draw_notes_malformed:
  assumes "list_ex malformed_note ns"
  shows "isl (draw_notes e x y ns)"
proof -
  from assms obtain n where n: "n \<in> set ns" "malformed_note n"
    by (auto simp: list_ex_iff)
  show ?thesis
    unfolding draw_notes_def using n(1)
  proof (rule efold_fails)
    fix s :: "drawop list \<times> bool"
    from draw_note_malformed [OF n(2)]
    show "isl ((case s of (ops, has_notes) \<Rightarrow> \<lambda>n. ebind (draw_note e x y n)
              (\<lambda>(ops', drawn). Inr (ops @ ops', has_notes \<or> drawn))) n)"
      by (cases s) (simp add: isl_ebind)
  qed
qed

lemma draw_beat_malformed:
  assumes "list_ex malformed_note (notes_of_beat b)"
  shows "isl (draw_beat e y umw t bx b)"
proof (cases "beat_width umw t b")
  case (Inl err)
  then show ?thesis by (simp add: draw_beat_def)
next
  case (Inr w)
  with draw_notes_malformed [OF assms, of e "bx + w * (3 / 10)" y] show ?thesis
    by (simp add: draw_beat_def notes_of_beat_def isl_ebind Let_def)
qed

lemma draw_beats_malformed:
  assumes "list_ex (\<lambda>b. list_ex malformed_note (notes_of_beat b)) bs"
  shows "isl (draw_beats e y umw t bx bs)"
proof -
  from assms obtain b where b: "b \<in> set bs" "list_ex malformed_note (notes_of_beat b)"
    by (auto simp: list_ex_iff)
  show ?thesis
    unfolding draw_beats_def using b(1)
  proof (rule efold_fails)
    fix s :: "drawop list \<times> rat"
    from draw_beat_malformed [OF b(2)]
    show "isl ((case s of (ops, beat_x) \<Rightarrow> \<lambda>b. ebind (draw_beat e y umw t beat_x b)
              (\<lambda>(ops', w). Inr (ops @ ops', beat_x + w))) b)"
      by (cases s) (simp add: isl_ebind)
  qed
qed

lemma measure_detail_malformed:
  assumes "has_malformed_note m"
  shows "isl (measure_detail e s m)"
proof -
  from assms obtain v vs where v: "get_or (m_voices m) [] = v # vs"
    and bad: "list_ex (\<lambda>b. list_ex malformed_note (notes_of_beat b)) (get_or (v_beats v) [])"
    by (auto simp: has_malformed_note_def split: list.splits)
  from bad obtain b bs where beats: "get_or (v_beats v) [] = b # bs"
    by (cases "get_or (v_beats v) []") auto
  show ?thesis
  proof (cases "total_duration (b # bs)")
    case (Inl err)
    with v beats show ?thesis by (simp add: measure_detail_def)
  next
    case (Inr t)
    with v beats bad
      draw_beats_malformed [of "b # bs" e "current_y s" "measure_width - 6 * mm" t
        "current_x s + 3 * mm"]
    show ?thesis by (simp add: measure_detail_def isl_ebind Let_def)
  qed
qed

lemma measure_step_fails:
  assumes "\<And>e s. isl (measure_detail e s m)"
  shows "isl (measure_step e s idx m)"
proof -
  have "isl (measure_ops e s' idx m)" for s'
    using assms [of e s']
    by (cases "line_head e s' idx"; cases "measure_frame e s' idx")
      (auto simp: measure_ops_def isl_ebind)
  then show ?thesis
    by (simp add: measure_step_def Let_def isl_ebind)
qed

lemma render_fails:
  assumes "j < length ms" and "\<And>e s. isl (measure_detail e s (ms ! j))"
  shows "isl (render_measures e s idx ms)"
  using assms
proof (induction ms arbitrary: s idx j)
  case Nil
  then show ?case by simp
next
  case (Cons m ms)
  show ?case
  proof (cases j)
    case 0
    with Cons.prems(2) have "isl (measure_step e s idx m)"
      by (intro measure_step_fails) simp
    then show ?thesis by (simp add: isl_ebind)
  next
    case (Suc i)
    with Cons.prems have "i < length ms" "\<And>e s. isl (measure_detail e s (ms ! i))"
      by simp_all
    from Cons.IH [OF this] show ?thesis
      by (cases "measure_step e s idx m") simp_all
  qed
qed

lemma convert_fails:
  assumes "d_measures data = Some ms" and "find_first_content_measure ms \<le> k"
    and "k < length ms" and "\<And>e s. isl (measure_detail e s (ms ! k))"
  shows "isl (convert data track_info)"
proof (cases "prepare data track_info")
  case (Inl err)
  with assms(1,3) show ?thesis
    by (auto simp: convert_def get_or_def Let_def)
next
  case (Inr es)
  obtain e s0 where es: "es = (e, s0)" by (cases es)
  from Inr es assms(1) have start: "start_measure e = find_first_content_measure ms"
    by (simp add: prepare_start get_or_def)
  let ?rest = "drop (start_measure e) ms"
  from assms(2,3) start have "k - start_measure e < length ?rest"
    and "?rest ! (k - start_measure e) = ms ! k"
    by simp_all
  with assms(4) have "isl (render_measures e s0 (start_measure e) ?rest)"
    by (intro render_fails [of "k - start_measure e"]) simp_all
  with Inr es assms(1,3) show ?thesis
    by (auto simp: convert_def get_or_def Let_def isl_ebind)
qed

text \<open>
  Claim C2, as amended. \<^verbatim>\<open>convert\<close> has no exception handler. When a rendered measure
  (one at or after the first content measure) holds, in its first voice, a sounding note
  whose string index cannot be coerced to an integer, \<^verbatim>\<open>convert\<close> raises: no glyph is
  skipped, no later measure is drawn and nothing is saved. The same holds for any measure
  whose content cannot be drawn.
\<close>

theorem failures_abort:
  assumes "d_measures data = Some ms" and "find_first_content_measure ms \<le> k"
    and "k < length ms"
  shows "(has_malformed_note (ms ! k) \<longrightarrow> isl (convert data track_info)) \<and>
         ((\<forall>e s. isl (measure_detail e s (ms ! k))) \<longrightarrow> isl (convert data track_info))"
  using convert_fails [OF assms] measure_detail_malformed [of "ms ! k"]
  by blast

theorem failures_abort_witness:
  "d_measures (plain_document [one_note_measure (JStr ''abc'') (JInt 3)] None) =
     Some [one_note_measure (JStr ''abc'') (JInt 3)] \<and>
   find_first_content_measure [one_note_measure (JStr ''abc'') (JInt 3)] \<le> 0 \<and>
   0 < length [one_note_measure (JStr ''abc'') (JInt 3)] \<and>
   has_malformed_note ([one_note_measure (JStr ''abc'') (JInt 3)] ! 0) \<and>
   isl (convert (plain_document [one_note_measure (JStr ''abc'') (JInt 3)] None) None)"
proof -
  let ?ms = "[one_note_measure (JStr ''abc'') (JInt 3)]"
  have doc: "d_measures (plain_document ?ms None) = Some ?ms"
    by (simp add: plain_document_def)
  have start: "find_first_content_measure ?ms \<le> 0"
    by (simp add: find_first_content_measure_def one_note_measure_def get_or_def)
  have len: "0 < length ?ms"
    by simp
  have bad: "has_malformed_note (?ms ! 0)"
    by (simp add: has_malformed_note_def malformed_note_def sounding_def string_index_def
        notes_of_beat_def one_note_measure_def int_float_def get_or_def get_none_def
        float_of_string_def strip_def is_space_def split_sign_def lower_def to_lower_def
        unsigned_float_def digit_val_def)
  from failures_abort [OF doc start len, of None] doc start len bad show ?thesis
    by blast
qed

text \<open>
  The claim as stated fails: one note on the string "abc" makes \<^verbatim>\<open>convert\<close> raise
  \<^verbatim>\<open>ValueError\<close>.
\<close>

theorem failures_abort_counterexample:
  "convert (plain_document [one_note_measure (JStr ''abc'') (JInt 3)] None) None =
     Inl ValueError"
  by (simp add: example_defs eval_defs float_of_string_def strip_def is_space_def
      split_sign_def lower_def to_lower_def unsigned_float_def digit_val_def
      upt_rec [of _ "numeral _"] eval_nat_numeral Let_def cong: ebind_weak_cong)

section \<open>Tempo markings\<close>

lemma tempo_loop_ordered:
  assumes "breakpoints_ordered tcs"
  shows "tempo_loop cur idx tcs =
           Inr (case rev (filter (reached idx) tcs) of
                  [] \<Rightarrow> cur
                | tc # earlier \<Rightarrow> get_or (tc_bpm tc) (JInt 120))"
  using assms
proof (induction tcs arbitrary: cur)
  case Nil
  then show ?case by simp
next
  case (Cons tc tcs)
  from Cons.prems obtain r where r: "tempo_measure tc = Some r"
    and later: "\<forall>tc' \<in> set tcs. r \<le> the (tempo_measure tc')"
    and rest: "breakpoints_ordered tcs"
    by (auto simp: breakpoints_ordered_def)
  from rest have numeric: "\<forall>tc' \<in> set tcs. tempo_measure tc' \<noteq> None"
    by (simp add: breakpoints_ordered_def list_all_iff)
  have num: "py_num (get_or (tc_measure tc) (JInt 0)) = Inr r"
    using r by (simp add: py_num_def tempo_measure_def)
  show ?case
  proof (cases "r \<le> of_nat idx")
    case True
    then have "reached idx tc" using r by (simp add: reached_def)
    then have "rev (filter (reached idx) (tc # tcs)) = rev (filter (reached idx) tcs) @ [tc]"
      by simp
    then show ?thesis
      using True num Cons.IH [OF rest, of "get_or (tc_bpm tc) (JInt 120)"]
      by (cases "rev (filter (reached idx) tcs)") simp_all
  next
    case False
    then have "\<not> reached idx tc" using r by (simp add: reached_def)
    moreover have "\<forall>tc' \<in> set tcs. \<not> reached idx tc'"
      using later numeric False by (fastforce simp: reached_def)
    ultimately have "filter (reached idx) (tc # tcs) = []"
      by (simp add: filter_empty_conv)
    then show ?thesis
      using False num by simp
  qed
qed

lemma get_tempo_ordered:
  "breakpoints_ordered (get_or (a_tempo a) []) \<Longrightarrow>
   get_tempo_at_measure a idx = Inr (active_tempo (get_or (a_tempo a) []) idx)"
  by (simp add: get_tempo_at_measure_def active_tempo_def tempo_loop_ordered)

lemma tempo_marks_append [simp]: "tempo_marks (xs @ ys) = tempo_marks xs @ tempo_marks ys"
  by (simp add: tempo_marks_def)

lemma tempo_marks_none:
  "list_all P ops \<Longrightarrow> (\<And>op. P op \<Longrightarrow> tempo_mark_of op = []) \<Longrightarrow> tempo_marks ops = []"
  by (induction ops) (auto simp: tempo_marks_def)

lemma label_no_tempo: "is_label_op op \<Longrightarrow> tempo_mark_of op = []"
  by (cases op) auto

lemma frame_no_tempo: "is_frame_op op \<Longrightarrow> tempo_mark_of op = []"
  by (cases op) (auto split: pytext.splits json.splits)

lemma detail_no_tempo: "is_detail_op op \<Longrightarrow> tempo_mark_of op = []"
  by (cases op) (auto simp: is_detail_op_def)

lemma time_signature_no_tempo:
  "time_signature_ops e s idx = Inr ops \<Longrightarrow> tempo_marks ops = []"
  by (auto simp: time_signature_ops_def draw_time_signature_def tempo_marks_def Let_def
      ebind_eq_Inr split: if_splits)

lemma tempo_ops_marks:
  assumes "tempo_ops e s idx = Inr (ops, shown)"
    and "get_tempo_at_measure (automations e) idx = Inr t"
  shows "tempo_marks ops =
           (if \<not> py_eq t (last_shown_tempo s) then [(current_x s, current_y s + 4 * mm, t)]
            else []) \<and>
         shown = (if \<not> py_eq t (last_shown_tempo s) then t else last_shown_tempo s)"
  using assms
  by (auto simp: tempo_ops_def draw_tempo_marking_def tempo_marks_def split: if_splits)

lemma line_head_tempo_marks:
  assumes "line_head e s idx = Inr (ops, shown)"
    and "get_tempo_at_measure (automations e) idx = Inr t"
  shows "tempo_marks ops =
           (if measure_count s = 0 \<and> \<not> py_eq t (last_shown_tempo s)
            then [(current_x s, current_y s + 4 * mm, t)] else []) \<and>
         shown = (if measure_count s = 0 \<and> \<not> py_eq t (last_shown_tempo s) then t
                  else last_shown_tempo s)"
proof (cases "measure_count s = 0")
  case False
  with assms(1) show ?thesis
    by (simp add: line_head_def tempo_marks_def)
next
  case True
  with assms(1) obtain labels sig_ops drawn where
    labels: "string_labels e (current_y s) = Inr labels"
    and sig: "time_signature_ops e s idx = Inr sig_ops"
    and tempo: "tempo_ops e s idx = Inr (drawn, shown)"
    and ops: "ops = labels @ sig_ops @ drawn"
    by (auto simp: line_head_def ebind_eq_Inr split: prod.splits)
  have "tempo_marks labels = []"
    using string_labels_ops [OF labels] by (rule tempo_marks_none) (rule label_no_tempo)
  moreover have "tempo_marks sig_ops = []"
    using sig by (rule time_signature_no_tempo)
  ultimately show ?thesis
    using tempo_ops_marks [OF tempo assms(2)] True ops by simp
qed

lemma measure_ops_tempo_marks:
  assumes "measure_ops e s idx m = Inr (ops, shown)"
    and "get_tempo_at_measure (automations e) idx = Inr t"
  shows "tempo_marks ops =
           (if measure_count s = 0 \<and> \<not> py_eq t (last_shown_tempo s)
            then [(current_x s, current_y s + 4 * mm, t)] else []) \<and>
         shown = (if measure_count s = 0 \<and> \<not> py_eq t (last_shown_tempo s) then t
                  else last_shown_tempo s)"
proof -
  from assms(1) obtain head frame detail where
    head: "line_head e s idx = Inr (head, shown)"
    and frame: "measure_frame e s idx = Inr frame"
    and detail: "measure_detail e s m = Inr detail"
    and ops: "ops = head @ frame @ detail"
    by (auto simp: measure_ops_def ebind_eq_Inr split: prod.splits)
  have "tempo_marks frame = []"
    using measure_frame_ops [OF frame] by (rule tempo_marks_none) (rule frame_no_tempo)
  moreover have "tempo_marks detail = []"
    using measure_detail_ops [OF detail] by (rule tempo_marks_none) (rule detail_no_tempo)
  ultimately show ?thesis
    using line_head_tempo_marks [OF head assms(2)] ops by simp
qed

text \<open>
  Claim C3, as amended. With the tempo breakpoints ordered by measure index, the tempo
  resolved for a measure is the bpm of the last breakpoint whose measure index is at most
  the measure's, and 120 when there is none. The marking is drawn for a measure exactly
  when the measure is the first of its line and that tempo differs from the last one
  drawn; it is drawn at the start of the measure, 4 mm above the top line, and becomes
  the last one drawn.
\<close>

theorem tempo_marking:
  assumes "breakpoints_ordered (get_or (a_tempo (automations e)) [])"
    and "measure_ops e s measure_idx m = Inr (ops, shown)"
  shows "get_tempo_at_measure (automations e) measure_idx =
           Inr (active_tempo (get_or (a_tempo (automations e)) []) measure_idx) \<and>
         tempo_marks ops =
           (if measure_count s = 0 \<and>
               \<not> py_eq (active_tempo (get_or (a_tempo (automations e)) []) measure_idx)
                   (last_shown_tempo s)
            then [(current_x s, current_y s + 4 * mm,
                   active_tempo (get_or (a_tempo (automations e)) []) measure_idx)]
            else []) \<and>
         shown =
           (if measure_count s = 0 \<and>
               \<not> py_eq (active_tempo (get_or (a_tempo (automations e)) []) measure_idx)
                   (last_shown_tempo s)
            then active_tempo (get_or (a_tempo (automations e)) []) measure_idx
            else last_shown_tempo s)"
  using get_tempo_ordered [OF assms(1)] measure_ops_tempo_marks [OF assms(2)]
  by simp

lemma late_ordered: "breakpoints_ordered late_tempo"
  by (simp add: breakpoints_ordered_def late_tempo_def tempo_at_def tempo_measure_def get_or_def)

theorem tempo_marking_witness:
  "breakpoints_ordered (get_or (a_tempo (automations (plain_env (Some late_tempo)))) []) \<and>
   (case measure_ops (plain_env (Some late_tempo)) plain_cursor 0 (sig_measure None) of
      Inl err \<Rightarrow> False
    | Inr (ops, shown) \<Rightarrow>
        tempo_marks ops = [(tab_x_start, page_height - margin - 16 * mm, JInt 120)] \<and>
        shown = JInt 120)"
proof -
  have ordered: "breakpoints_ordered (get_or (a_tempo (automations (plain_env (Some late_tempo)))) [])"
    using late_ordered by (simp add: plain_env_def get_or_def)
  obtain ops shown where
    run: "measure_ops (plain_env (Some late_tempo)) plain_cursor 0 (sig_measure None) = Inr (ops, shown)"
    by (simp add: plain_env_def plain_cursor_def sig_measure_def late_tempo_def tempo_at_def
        step_defs upt_rec [of _ "numeral _"] Let_def cong: ebind_weak_cong)
  have "active_tempo late_tempo 0 = JInt 120"
    by (simp add: active_tempo_def reached_def late_tempo_def tempo_at_def tempo_measure_def
        get_or_def)
  with tempo_marking [OF ordered run] run ordered show ?thesis
    by (simp add: plain_env_def plain_cursor_def get_or_def)
qed

text \<open>
  The claim as stated fails: with breakpoints at measures 0 and 2 the tempo changes at the
  third measure of the first line, and the render of three measures draws the marking of
  the first measure only.
\<close>

theorem tempo_marking_counterexample:
  "get_tempo_at_measure \<lparr>a_tempo = Some late_tempo\<rparr> 2 = Inr (JInt 140) \<and>
   (case convert (plain_document (replicate 3 (sig_measure None)) (Some late_tempo)) None of
      Inl err \<Rightarrow> False
    | Inr NoOutput \<Rightarrow> False
    | Inr (Written ps) \<Rightarrow>
        map tempo_marks ps = [[(tab_x_start, page_height - margin - 16 * mm, JInt 120)]])"
  by (simp add: plain_document_def sig_measure_def late_tempo_def tempo_at_def convert_def
      prepare_defs step_defs save_def tempo_marks_def layout_defs
      upt_rec [of _ "numeral _"] eval_nat_numeral Let_def cong: ebind_weak_cong)

section \<open>Time signatures\<close>

lemma signature_count_append [simp]:
  "signature_count (xs @ ys) = signature_count xs + signature_count ys"
  by (simp add: signature_count_def)

lemma signature_count_none:
  "list_all P ops \<Longrightarrow> (\<And>op. P op \<Longrightarrow> op \<noteq> SetFont ''Helvetica-Bold'' 10) \<Longrightarrow>
   signature_count ops = 0"
  by (induction ops) (auto simp: signature_count_def)

lemma label_no_signature: "is_label_op op \<Longrightarrow> op \<noteq> SetFont ''Helvetica-Bold'' 10"
  by (cases op) auto

lemma frame_no_signature: "is_frame_op op \<Longrightarrow> op \<noteq> SetFont ''Helvetica-Bold'' 10"
  by (cases op) auto

lemma detail_no_signature: "is_detail_op op \<Longrightarrow> op \<noteq> SetFont ''Helvetica-Bold'' 10"
  by (cases op) (auto simp: is_detail_op_def)

lemma tempo_ops_no_signature:
  "tempo_ops e s idx = Inr (ops, shown) \<Longrightarrow> signature_count ops = 0"
  by (auto simp: tempo_ops_def draw_tempo_marking_def signature_count_def ebind_eq_Inr
      split: if_splits)

lemma time_signature_ops_count:
  "time_signature_ops e s idx = Inr ops \<Longrightarrow>
   signature_count ops =
     (if truthy (current_signature s) \<and> (is_first_line s \<or> idx = start_measure e) then 1
      else 0)"
  by (auto simp: time_signature_ops_def draw_time_signature_def signature_count_def Let_def
      ebind_eq_Inr split: if_splits)

lemma line_head_signature_count:
  assumes "line_head e s idx = Inr (ops, shown)"
  shows "signature_count ops =
           (if measure_count s = 0 \<and> truthy (current_signature s) \<and>
               (is_first_line s \<or> idx = start_measure e)
            then 1 else 0)"
proof (cases "measure_count s = 0")
  case False
  with assms show ?thesis
    by (simp add: line_head_def signature_count_def)
next
  case True
  with assms obtain labels sig_ops drawn where
    labels: "string_labels e (current_y s) = Inr labels"
    and sig: "time_signature_ops e s idx = Inr sig_ops"
    and tempo: "tempo_ops e s idx = Inr (drawn, shown)"
    and ops: "ops = labels @ sig_ops @ drawn"
    by (auto simp: line_head_def ebind_eq_Inr split: prod.splits)
  have "signature_count labels = 0"
    using string_labels_ops [OF labels] by (rule signature_count_none) (rule label_no_signature)
  then show ?thesis
    using time_signature_ops_count [OF sig] tempo_ops_no_signature [OF tempo] True ops
    by simp
qed

lemma measure_ops_signature_count:
  assumes "measure_ops e s idx m = Inr (ops, shown)"
  shows "signature_count ops =
           (if measure_count s = 0 \<and> truthy (current_signature s) \<and>
               (is_first_line s \<or> idx = start_measure e)
            then 1 else 0)"
proof -
  from assms obtain head frame detail where
    head: "line_head e s idx = Inr (head, shown)"
    and frame: "measure_frame e s idx = Inr frame"
    and detail: "measure_detail e s m = Inr detail"
    and ops: "ops = head @ frame @ detail"
    by (auto simp: measure_ops_def ebind_eq_Inr split: prod.splits)
  have "signature_count frame = 0"
    using measure_frame_ops [OF frame] by (rule signature_count_none) (rule frame_no_signature)
  moreover have "signature_count detail = 0"
    using measure_detail_ops [OF detail]
    by (rule signature_count_none) (rule detail_no_signature)
  ultimately show ?thesis
    using line_head_signature_count [OF head] ops by simp
qed

text \<open>
  Claim C4, as amended. The time signature is drawn for a measure, once, exactly when the
  measure is the first of its line, a signature is in effect, and the line is the first
  of its page or the measure is the first one rendered. A line is the first of its page
  when it is the line the render starts with or the line that follows a page break.
\<close>

theorem time_signature_glyph:
  assumes "measure_ops e (place e s0 m) measure_idx m = Inr (ops, shown)"
  shows "signature_count ops =
           (if measure_count (place e s0 m) = 0 \<and> truthy (current_signature (place e s0 m)) \<and>
               (is_first_line (place e s0 m) \<or> measure_idx = start_measure e)
            then 1 else 0) \<and>
         is_first_line (place e s0 m) =
           (if measures_per_line \<le> measure_count s0
            then current_y s0 - line_height e < margin + line_height e
            else is_first_line s0) \<and>
         length (pages (cnv (place e s0 m))) =
           length (pages (cnv s0)) +
           (if measures_per_line \<le> measure_count s0 \<and>
               current_y s0 - line_height e < margin + line_height e
            then 1 else 0)"
  using measure_ops_signature_count [OF assms] place_first_line place_pages
  by simp

theorem time_signature_glyph_witness:
  "case measure_ops (plain_env None) (place (plain_env None) plain_cursor (five_measures ! 0)) 0
          (five_measures ! 0) of
     Inl err \<Rightarrow> False
   | Inr (ops, shown) \<Rightarrow> signature_count ops = 1"
proof -
  obtain ops shown where
    run: "measure_ops (plain_env None) (place (plain_env None) plain_cursor (five_measures ! 0)) 0
            (five_measures ! 0) = Inr (ops, shown)"
    by (simp add: plain_env_def plain_cursor_def five_measures_def sig_measure_def
        step_defs measures_per_line_def upt_rec [of _ "numeral _"] Let_def
        cong: ebind_weak_cong)
  from time_signature_glyph [OF run] run show ?thesis
    by (simp add: plain_env_def plain_cursor_def five_measures_def sig_measure_def place_def
        wrap_line_def update_signature_def measures_per_line_def get_or_def Let_def)
qed

text \<open>
  The claim as stated fails: of five measures with a signature at the first, the fifth
  starts the second line with the signature in effect, and the page holds one signature.
\<close>

theorem time_signature_glyph_counterexample:
  "(case convert (plain_document five_measures None) None of
      Inl err \<Rightarrow> False
    | Inr NoOutput \<Rightarrow> False
    | Inr (Written ps) \<Rightarrow> map signature_count ps = [1]) \<and>
   map (\<lambda>s. (measure_count s, truthy (current_signature s), is_first_line s,
             length (pages (cnv s))))
     (placements (plain_env None) plain_cursor 0 five_measures) =
     [(0, True, True, 0), (1, True, True, 0), (2, True, True, 0), (3, True, True, 0),
      (0, True, False, 0)]"
  by (simp add: plain_document_def plain_env_def plain_cursor_def five_measures_def
      sig_measure_def convert_def prepare_defs step_defs save_def signature_count_def
      layout_defs upt_rec [of _ "numeral _"] eval_nat_numeral Let_def cong: ebind_weak_cong)

section \<open>Lines and pages\<close>

lemma nine_render:
  "case convert nine_document None of
     Inl err \<Rightarrow> False
   | Inr NoOutput \<Rightarrow> False
   | Inr (Written ps) \<Rightarrow>
       map numbers_at ps =
         [[(1, page_height - margin - 17 * mm), (2, page_height - margin - 17 * mm),
           (3, page_height - margin - 17 * mm), (4, page_height - margin - 17 * mm),
           (5, page_height - margin - 17 * mm - (22 * string_spacing + line_spacing)),
           (6, page_height - margin - 17 * mm - (22 * string_spacing + line_spacing)),
           (7, page_height - margin - 17 * mm - (22 * string_spacing + line_spacing)),
           (8, page_height - margin - 17 * mm - (22 * string_spacing + line_spacing))],
          [(9, page_height - margin - 7 * mm)]]"
  by (simp add: nine_document_def sig_measure_def eval_defs numbers_at_def measure_numbers_def
      upt_rec [of _ "numeral _"] eval_nat_numeral Let_def cong: ebind_weak_cong)

text \<open>
  Claim C5. Of the measures a render draws, the one after every fourth starts a new line:
  the position of a measure in its line is its rank modulo 4, a measure that does not
  start a line stands one measure width right of the one before, on the same line and
  page, and a measure that starts a line stands at the left edge, one line height lower.
  When a line that high would reach below the bottom margin, the page is closed and the
  line starts 10 mm below the top margin of a new page. Nine measures on 22 strings, where
  two lines fit on a page, give two pages: the measures 1 to 4 on the first line and 5 to
  8 on the second line of the first page, and the measure 9 on the second page.
\<close>

theorem line_and_page_breaks:
  assumes "measure_count s = 0" and "Suc k < length (placements e s idx ms)"
  shows "measure_count (placements e s idx ms ! k) = k mod measures_per_line \<and>
         measure_count (placements e s idx ms ! Suc k) = Suc k mod measures_per_line \<and>
         (if Suc k mod measures_per_line \<noteq> 0
          then current_x (placements e s idx ms ! Suc k) =
                 current_x (placements e s idx ms ! k) + measure_width \<and>
               current_y (placements e s idx ms ! Suc k) =
                 current_y (placements e s idx ms ! k) \<and>
               pages (cnv (placements e s idx ms ! Suc k)) =
                 pages (cnv (placements e s idx ms ! k))
          else current_x (placements e s idx ms ! Suc k) = tab_x_start \<and>
               (if current_y (placements e s idx ms ! k) - line_height e < margin + line_height e
                then current_y (placements e s idx ms ! Suc k) = page_height - margin - 10 * mm \<and>
                     length (pages (cnv (placements e s idx ms ! Suc k))) =
                       Suc (length (pages (cnv (placements e s idx ms ! k))))
                else current_y (placements e s idx ms ! Suc k) =
                       current_y (placements e s idx ms ! k) - line_height e \<and>
                     pages (cnv (placements e s idx ms ! Suc k)) =
                       pages (cnv (placements e s idx ms ! k)))) \<and>
         (case convert nine_document None of
            Inl err \<Rightarrow> False
          | Inr NoOutput \<Rightarrow> False
          | Inr (Written ps) \<Rightarrow>
              map numbers_at ps =
                [[(1, page_height - margin - 17 * mm), (2, page_height - margin - 17 * mm),
                  (3, page_height - margin - 17 * mm), (4, page_height - margin - 17 * mm),
                  (5, page_height - margin - 17 * mm - (22 * string_spacing + line_spacing)),
                  (6, page_height - margin - 17 * mm - (22 * string_spacing + line_spacing)),
                  (7, page_height - margin - 17 * mm - (22 * string_spacing + line_spacing)),
                  (8, page_height - margin - 17 * mm - (22 * string_spacing + line_spacing))],
                 [(9, page_height - margin - 7 * mm)]])"
proof -
  let ?pl = "placements e s idx ms"
  from assms(2) have k: "k < length ?pl" by simp
  have here: "measure_count (?pl ! k) = k mod measures_per_line"
    using assms(1) k by (rule placements_count)
  have there: "measure_count (?pl ! Suc k) = Suc k mod measures_per_line"
    using assms by (rule placements_count)
  from placements_next [OF assms(2)] obtain s' m where
    next_one: "?pl ! Suc k = place e s' m"
    and x: "current_x s' = current_x (?pl ! k) + measure_width"
    and y: "current_y s' = current_y (?pl ! k)"
    and c: "measure_count s' = Suc (measure_count (?pl ! k))"
    and p: "pages (cnv s') = pages (cnv (?pl ! k))"
    by blast
  have full: "measures_per_line \<le> measure_count s' \<longleftrightarrow> Suc k mod measures_per_line = 0"
    using c here by (auto simp: mod_Suc measures_per_line_def)
  have layout:
    "if Suc k mod measures_per_line \<noteq> 0
     then current_x (?pl ! Suc k) = current_x (?pl ! k) + measure_width \<and>
          current_y (?pl ! Suc k) = current_y (?pl ! k) \<and>
          pages (cnv (?pl ! Suc k)) = pages (cnv (?pl ! k))
     else current_x (?pl ! Suc k) = tab_x_start \<and>
          (if current_y (?pl ! k) - line_height e < margin + line_height e
           then current_y (?pl ! Suc k) = page_height - margin - 10 * mm \<and>
                length (pages (cnv (?pl ! Suc k))) = Suc (length (pages (cnv (?pl ! k))))
           else current_y (?pl ! Suc k) = current_y (?pl ! k) - line_height e \<and>
                pages (cnv (?pl ! Suc k)) = pages (cnv (?pl ! k)))"
    using full x y p by (simp add: next_one place_layout showPage_def)
  from here there layout nine_render show ?thesis
    by simp
qed

lemma nine_prepare: "prepare nine_document None = Inr (tall_env, plain_cursor)"
  by (simp add: nine_document_def tall_env_def plain_cursor_def sig_measure_def prepare_defs
      eval_nat_numeral Let_def cong: ebind_weak_cong)

lemma nine_placements:
  "map (\<lambda>s. (current_y s, length (pages (cnv s))))
     (placements tall_env plain_cursor 0 (replicate 9 (sig_measure None))) =
     [(page_height - margin - 20 * mm, 0), (page_height - margin - 20 * mm, 0),
      (page_height - margin - 20 * mm, 0), (page_height - margin - 20 * mm, 0),
      (page_height - margin - 20 * mm - (22 * string_spacing + line_spacing), 0),
      (page_height - margin - 20 * mm - (22 * string_spacing + line_spacing), 0),
      (page_height - margin - 20 * mm - (22 * string_spacing + line_spacing), 0),
      (page_height - margin - 20 * mm - (22 * string_spacing + line_spacing), 0),
      (page_height - margin - 10 * mm, 1)]"
  by (simp add: tall_env_def plain_cursor_def sig_measure_def step_defs layout_defs
      upt_rec [of _ "numeral _"] eval_nat_numeral Let_def cong: ebind_weak_cong)

theorem line_and_page_breaks_witness:
  "prepare nine_document None = Inr (tall_env, plain_cursor) \<and>
   measure_count plain_cursor = 0 \<and>
   Suc 7 < length (placements tall_env plain_cursor 0 (replicate 9 (sig_measure None))) \<and>
   measure_count (placements tall_env plain_cursor 0 (replicate 9 (sig_measure None)) ! 7) = 3 \<and>
   measure_count (placements tall_env plain_cursor 0 (replicate 9 (sig_measure None)) ! Suc 7) = 0 \<and>
   current_x (placements tall_env plain_cursor 0 (replicate 9 (sig_measure None)) ! Suc 7) =
     tab_x_start \<and>
   current_y (placements tall_env plain_cursor 0 (replicate 9 (sig_measure None)) ! Suc 7) =
     page_height - margin - 10 * mm \<and>
   length (pages (cnv (placements tall_env plain_cursor 0 (replicate 9 (sig_measure None)) ! Suc 7))) =
     Suc (length (pages (cnv (placements tall_env plain_cursor 0 (replicate 9 (sig_measure None)) ! 7))))"
proof -
  let ?pl = "placements tall_env plain_cursor 0 (replicate 9 (sig_measure None))"
  have "length (map (\<lambda>s. (current_y s, length (pages (cnv s)))) ?pl) = 9"
    by (simp only: nine_placements) simp
  then have len: "Suc 7 < length ?pl"
    by simp
  have "map (\<lambda>s. (current_y s, length (pages (cnv s)))) ?pl ! 7 =
      (page_height - margin - 20 * mm - (22 * string_spacing + line_spacing), 0)"
    by (simp only: nine_placements) simp
  with len have y: "current_y (?pl ! 7) =
      page_height - margin - 20 * mm - (22 * string_spacing + line_spacing)"
    by simp
  have start: "measure_count plain_cursor = 0"
    by (simp add: plain_cursor_def)
  have break: "current_y (?pl ! 7) - line_height tall_env < margin + line_height tall_env"
    by (simp only: y) (simp add: tall_env_def layout_defs)
  from line_and_page_breaks [OF start len] break nine_prepare start len show ?thesis
    by (simp add: measures_per_line_def)
qed

section \<open>The number of strings of a percussion track\<close>

lemma raised_append: "raised mx (xs @ ys) = raised (raised mx xs) ys"
  by (simp add: raised_def)

lemma scan_notes:
  "efold scan_note mx ns = ebind (emap string_index ns) (\<lambda>idxs. Inr (raised mx idxs))"
proof (induction ns arbitrary: mx)
  case Nil
  then show ?case by (simp add: raised_def)
next
  case (Cons n ns)
  have step: "scan_note mx n = ebind (string_index n) (\<lambda>i. Inr (max mx (i + 1)))" for mx n
    by (simp add: scan_note_def string_index_def)
  have "efold scan_note mx (n # ns) = ebind (scan_note mx n) (\<lambda>s'. efold scan_note s' ns)"
    by simp
  also have "\<dots> =
      ebind (ebind (string_index n) (\<lambda>i. Inr (max mx (i + 1))))
        (\<lambda>s'. ebind (emap string_index ns) (\<lambda>idxs. Inr (raised s' idxs)))"
    by (simp only: step Cons.IH)
  also have "\<dots> = ebind (emap string_index (n # ns)) (\<lambda>idxs. Inr (raised mx idxs))"
    by (cases "string_index n"; cases "emap string_index ns") (simp_all add: raised_def)
  finally show ?case .
qed

lemma scan_nested:
  assumes "\<And>mx x. f mx x = ebind (emap string_index (g x)) (\<lambda>idxs. Inr (raised mx idxs))"
  shows "efold f mx xs =
           ebind (emap string_index (concat (map g xs))) (\<lambda>idxs. Inr (raised mx idxs))"
proof (induction xs arbitrary: mx)
  case Nil
  then show ?case by (simp add: raised_def)
next
  case (Cons x xs)
  have "efold f mx (x # xs) = ebind (f mx x) (\<lambda>s'. efold f s' xs)"
    by simp
  also have "\<dots> =
      ebind (ebind (emap string_index (g x)) (\<lambda>idxs. Inr (raised mx idxs)))
        (\<lambda>s'. ebind (emap string_index (concat (map g xs))) (\<lambda>idxs. Inr (raised s' idxs)))"
    by (simp only: assms Cons.IH)
  also have "\<dots> =
      ebind (emap string_index (concat (map g (x # xs)))) (\<lambda>idxs. Inr (raised mx idxs))"
    by (cases "emap string_index (g x)"; cases "emap string_index (concat (map g xs))")
      (simp_all add: emap_append raised_append)
  finally show ?case .
qed

lemma scan_beats:
  "efold scan_beat mx bs =
     ebind (emap string_index (concat (map notes_of_beat bs))) (\<lambda>idxs. Inr (raised mx idxs))"
  by (rule scan_nested) (simp add: scan_beat_def notes_of_beat_def scan_notes)

lemma scan_voices:
  "efold scan_voice mx vs =
     ebind (emap string_index (concat (map notes_of_voice vs))) (\<lambda>idxs. Inr (raised mx idxs))"
  by (rule scan_nested) (simp add: scan_voice_def notes_of_voice_def scan_beats)

lemma scan_measures:
  "efold scan_measure mx ms =
     ebind (emap string_index (concat (map notes_of_measure ms))) (\<lambda>idxs. Inr (raised mx idxs))"
  by (rule scan_nested) (simp add: scan_measure_def notes_of_measure_def scan_voices)

lemma raised_Max:
  "raised mx idxs = (if idxs = [] then mx else max mx (Max (set idxs) + 1))"
proof (induction idxs arbitrary: mx)
  case Nil
  then show ?case by (simp add: raised_def)
next
  case (Cons i idxs)
  have "raised mx (i # idxs) = raised (max mx (i + 1)) idxs"
    by (simp add: raised_def)
  also have "\<dots> = (if idxs = [] then max mx (i + 1) else max (max mx (i + 1)) (Max (set idxs) + 1))"
    by (rule Cons.IH)
  also have "\<dots> = max mx (Max (set (i # idxs)) + 1)"
    by (cases "idxs = []") (auto simp: max_def Max_insert)
  finally show ?case by simp
qed

lemma drum_strings_value:
  assumes "drum_strings ms = Inr n"
  shows "\<exists>idxs. emap string_index (scanned_notes ms) = Inr idxs \<and>
           n = JInt (if idxs = [] then 5 else max (Max (set idxs) + 1) 5)"
proof -
  from assms obtain idxs where idxs: "emap string_index (scanned_notes ms) = Inr idxs"
    and n: "n = JInt (max (raised 0 idxs) 5)"
    by (auto simp: drum_strings_def scan_measures scanned_notes_def ebind_eq_Inr)
  have floor: "max (max 0 x) 5 = max x 5" for x :: int
    by simp
  have "max (raised 0 idxs) 5 = (if idxs = [] then 5 else max (Max (set idxs) + 1) 5)"
    using floor [of "Max (set idxs) + 1"] by (cases "idxs = []") (simp_all only: raised_Max if_True if_False, simp)
  with idxs n show ?thesis by simp
qed

lemma drum_in_lower_label:
  "drum_in_lower (get_or v (JStr [])) = Inr d \<Longrightarrow> d = label_has_drum v"
proof (cases v)
  case None
  then show "drum_in_lower (get_or v (JStr [])) = Inr d \<Longrightarrow> d = label_has_drum v"
    by (auto simp: label_has_drum_def get_or_def lower_def)
next
  case (Some x)
  then show "drum_in_lower (get_or v (JStr [])) = Inr d \<Longrightarrow> d = label_has_drum v"
    by (cases x) (auto simp: label_has_drum_def get_or_def)
qed

lemma falsy_label: "\<not> truthy (get_none v) \<Longrightarrow> \<not> label_has_drum v"
proof (cases v)
  case None
  then show ?thesis by (simp add: label_has_drum_def)
next
  case (Some x)
  then show "\<not> truthy (get_none v) \<Longrightarrow> \<not> label_has_drum v"
    by (cases x) (auto simp: label_has_drum_def get_none_def get_or_def lower_def)
qed

lemma resolve_is_drums_value:
  assumes "resolve_is_drums data track_info = Inr drums"
  shows "drums = ((ti_present track_info \<and> label_has_drum (ti_get track_info ti_instrument)) \<or>
                  label_has_drum (d_instrument data))"
proof -
  from assms obtain d1 where
    first: "(if ti_present track_info
             then drum_in_lower (get_or (ti_get track_info ti_instrument) (JStr []))
             else Inr False) = Inr d1"
    and second: "(if \<not> d1 \<and> truthy (get_none (d_instrument data))
                  then drum_in_lower (get_or (d_instrument data) (JStr []))
                  else Inr d1) = Inr drums"
    by (auto simp: resolve_is_drums_def ebind_eq_Inr)
  have d1: "d1 = (ti_present track_info \<and> label_has_drum (ti_get track_info ti_instrument))"
    using first by (auto split: if_splits dest: drum_in_lower_label)
  show ?thesis
  proof (cases "\<not> d1 \<and> truthy (get_none (d_instrument data))")
    case True
    with second have "drums = label_has_drum (d_instrument data)"
      by (auto dest: drum_in_lower_label)
    with True d1 show ?thesis by auto
  next
    case False
    with second have "drums = d1" by auto
    with False d1 falsy_label [of "d_instrument data"] show ?thesis by auto
  qed
qed

text \<open>
  Claim C6. When the instrument label of the track information or of the document
  contains "drum" in any case, the settings a render starts from are those of percussion
  mode, and the number of strings is \<open>max (m + 1) 5\<close> for the largest \<open>m\<close> among the
  string indices, coerced to integers, of the notes of the first 30 measures (5 when there
  is no note), whatever string count is declared.
\<close>

theorem percussion_strings:
  assumes "(ti_present track_info \<and> label_has_drum (ti_get track_info ti_instrument)) \<or>
           label_has_drum (d_instrument data)"
    and "prepare data track_info = Inr (e, s0)"
  shows "is_drums e \<and>
         (\<exists>idxs. emap string_index (scanned_notes (get_or (d_measures data) [])) = Inr idxs \<and>
            num_strings e = JInt (if idxs = [] then 5 else max (Max (set idxs) + 1) 5))"
proof -
  from prepare_strings [OF assms(2)] obtain declared drums where
    drums: "resolve_is_drums data track_info = Inr drums"
    and result: "(if drums
                  then ebind (drum_strings (get_or (d_measures data) [])) (\<lambda>n. Inr (n, True))
                  else Inr (declared, False)) = Inr (num_strings e, is_drums e)"
    by (auto simp: resolve_strings_def ebind_eq_Inr)
  from resolve_is_drums_value [OF drums] assms(1) have drums by simp
  with result have "is_drums e"
    and "drum_strings (get_or (d_measures data) []) = Inr (num_strings e)"
    by (auto simp: ebind_eq_Inr)
  with drum_strings_value show ?thesis by blast
qed

lemma drum_label: "label_has_drum (d_instrument drum_document)"
  by (simp add: drum_document_def label_has_drum_def lower_def to_lower_def)

lemma drum_indices:
  "emap string_index (scanned_notes (get_or (d_measures drum_document) [])) = Inr [2, 6, 4, 1]"
  by (simp add: drum_document_def drum_notes_def scanned_notes_def notes_of_measure_def
      notes_of_voice_def notes_of_beat_def string_index_def int_float_def get_or_def
      float_of_string_def strip_def is_space_def split_sign_def lower_def to_lower_def
      unsigned_float_def digit_val_def digits_value_def)

theorem percussion_strings_witness:
  "label_has_drum (d_instrument drum_document) \<and>
   (case prepare drum_document None of
      Inl err \<Rightarrow> False
    | Inr (e, s0) \<Rightarrow> is_drums e \<and> num_strings e = JInt 7)"
proof -
  obtain e s0 where prep: "prepare drum_document None = Inr (e, s0)"
    by (simp add: drum_document_def drum_notes_def prepare_defs
        float_of_string_def strip_def is_space_def split_sign_def lower_def to_lower_def
        unsigned_float_def digit_val_def digits_value_def layout_defs Let_def
        cong: ebind_weak_cong)
  from percussion_strings [OF disjI2, OF drum_label prep] drum_indices prep drum_label
  show ?thesis by simp
qed

section \<open>Rhythm stems\<close>

lemma draw_note_sounding:
  "draw_note e x y n = Inr (ops, d) \<Longrightarrow> d = sounding n"
  by (auto simp: draw_note_def sounding_def Let_def ebind_eq_Inr split: if_splits)

lemma draw_notes_acc:
  "efold (\<lambda>(ops, has_notes) n.
            ebind (draw_note e x y n) (\<lambda>(ops', drawn). Inr (ops @ ops', has_notes \<or> drawn)))
     (ops0, h0) ns = Inr (ops, h) \<Longrightarrow>
   h = (h0 \<or> list_ex sounding ns)"
proof (induction ns arbitrary: ops0 h0)
  case Nil
  then show ?case by simp
next
  case (Cons n ns)
  from Cons.prems obtain ops1 d where
    one: "draw_note e x y n = Inr (ops1, d)"
    and rest: "efold (\<lambda>(ops, has_notes) n.
            ebind (draw_note e x y n) (\<lambda>(ops', drawn). Inr (ops @ ops', has_notes \<or> drawn)))
     (ops0 @ ops1, h0 \<or> d) ns = Inr (ops, h)"
    by (auto simp: ebind_eq_Inr split: prod.splits)
  from Cons.IH [OF rest] draw_note_sounding [OF one] show ?case
    by auto
qed

lemma draw_notes_has_notes:
  "draw_notes e x y ns = Inr (ops, h) \<Longrightarrow> h = list_ex sounding ns"
  unfolding draw_notes_def by (drule draw_notes_acc) simp

lemma filter_is_line_notes: "list_all is_note_op ops \<Longrightarrow> filter is_line ops = []"
proof (induction ops)
  case Nil
  then show ?case by simp
next
  case (Cons op ops)
  then show ?case by (cases op) auto
qed

lemma stem_flags_strokes: "stem_flags x fy d = map (flag_stroke x fy) (flag_offsets d)"
  by (simp add: stem_flags_def flag_offsets_def flag_stroke_def)

lemma flag_offsets_length:
  "length (flag_offsets d) =
     (if d < 8 then 0 else if d = 8 then 1 else if d = 16 then 2 else if 32 \<le> d then 3 else 0)"
  by (simp add: flag_offsets_def)

lemma flag_offsets_rising: "sorted_wrt (<) (flag_offsets d)"
  by (simp add: flag_offsets_def mm_def)

lemma draw_rhythm_stem_lines:
  assumes "draw_rhythm_stem x y dt = Inr ops"
  shows "\<exists>d. num_of dt = Some d \<and>
           filter is_line ops =
             Line x (y - 3 * mm) x (y - 7 * mm) # map (flag_stroke x (y - 7 * mm)) (flag_offsets d)"
proof -
  from assms obtain d where d: "num_of dt = Some d"
    and ops: "ops = (if 8 \<le> d
        then [SetLineWidth (8 / 10), Line x (y - 3 * mm) x (y - 3 * mm - 4 * mm)] @
             stem_flags x (y - 3 * mm - 4 * mm) d
        else [SetLineWidth (8 / 10), Line x (y - 3 * mm) x (y - 3 * mm - 4 * mm)])"
    by (auto simp: draw_rhythm_stem_def Let_def ebind_eq_Inr py_num_def
        split: option.splits if_splits)
  have seven: "y - 3 * mm - 4 * mm = y - 7 * mm" by simp
  have lines: "filter is_line (map (flag_stroke x fy) os) = map (flag_stroke x fy) os" for fy os
    by (induction os) (simp_all add: flag_stroke_def)
  show ?thesis
  proof (cases "8 \<le> d")
    case True
    with d ops seven lines show ?thesis
      by (simp add: stem_flags_strokes)
  next
    case False
    then have "flag_offsets d = []" by (simp add: flag_offsets_def)
    with False d ops seven show ?thesis by simp
  qed
qed

text \<open>
  Claim C7, as amended. The lines drawn for a beat are those of its rhythm stem. There is
  a stem exactly when the beat has a sounding note, that is a note that is not a rest and
  has a fret, whether its string is one of the strings drawn or not. The stem runs from 3
  mm to 7 mm below the lowest string line, and carries no flag for a duration type below
  8, one flag at 8, two at 16 and three from 32 on, each a stroke that starts higher than
  the one before.
\<close>

theorem rhythm_stem:
  assumes "draw_beat e y usable_measure_width total_dur beat_x b = Inr (ops, w)"
  shows "(if list_ex sounding (get_or (b_notes b) [])
          then \<exists>k d. num_of (num_strings e) = Some k \<and>
                 num_of (get_or (b_type b) (JInt 4)) = Some d \<and>
                 filter is_line ops =
                   Line (beat_x + w * (3 / 10)) (y - (k - 1) * string_spacing - 3 * mm)
                        (beat_x + w * (3 / 10)) (y - (k - 1) * string_spacing - 7 * mm) #
                   map (flag_stroke (beat_x + w * (3 / 10))
                          (y - (k - 1) * string_spacing - 7 * mm))
                     (flag_offsets d) \<and>
                 length (flag_offsets d) =
                   (if d < 8 then 0 else if d = 8 then 1 else if d = 16 then 2
                    else if 32 \<le> d then 3 else 0) \<and>
                 sorted_wrt (<) (flag_offsets d)
          else filter is_line ops = [])"
proof -
  let ?x = "beat_x + w * (3 / 10)"
  from assms obtain note_ops h stem where
    drawn_notes: "draw_notes e ?x y (get_or (b_notes b) []) = Inr (note_ops, h)"
    and stem: "stem_ops e ?x y b h = Inr stem"
    and ops: "ops = note_ops @ stem"
    by (auto simp: draw_beat_def Let_def ebind_eq_Inr beat_width_def split: prod.splits)
  have h: "h = list_ex sounding (get_or (b_notes b) [])"
    using drawn_notes by (rule draw_notes_has_notes)
  have no_lines: "filter is_line note_ops = []"
    using draw_notes_ops [OF drawn_notes] by (rule filter_is_line_notes)
  show ?thesis
  proof (cases h)
    case False
    with stem have "stem = []" by (simp add: stem_ops_def)
    with False h ops no_lines show ?thesis by simp
  next
    case True
    with stem obtain k where k: "num_of (num_strings e) = Some k"
      and drawn: "draw_rhythm_stem ?x (y - (k - 1) * string_spacing) (get_or (b_type b) (JInt 4)) =
        Inr stem"
      by (auto simp: stem_ops_def Let_def ebind_eq_Inr py_num_def split: option.splits)
    from draw_rhythm_stem_lines [OF drawn] obtain d where
      "num_of (get_or (b_type b) (JInt 4)) = Some d"
      "filter is_line stem =
         Line ?x (y - (k - 1) * string_spacing - 3 * mm) ?x (y - (k - 1) * string_spacing - 7 * mm) #
         map (flag_stroke ?x (y - (k - 1) * string_spacing - 7 * mm)) (flag_offsets d)"
      by blast
    with True h k ops no_lines flag_offsets_length [of d] flag_offsets_rising [of d]
    show ?thesis by auto
  qed
qed

theorem rhythm_stem_witness:
  "list_ex sounding
     [\<lparr>n_rest = None, n_fret = Some (JInt 3), n_string = Some (JInt 0)\<rparr>] \<and>
   (case draw_beat (plain_env None) 700 100 (1 / 4) 90
           \<lparr>b_duration = Some (JArr [JInt 1, JInt 4]), b_type = Some (JInt 16),
            b_beamStart = None, b_beamStop = None,
            b_notes = Some [\<lparr>n_rest = None, n_fret = Some (JInt 3), n_string = Some (JInt 0)\<rparr>]\<rparr> of
      Inl err \<Rightarrow> False
    | Inr (ops, w) \<Rightarrow>
        w = 100 \<and>
        filter is_line ops =
          [Line 120 (700 - 5 * string_spacing - 3 * mm) 120 (700 - 5 * string_spacing - 7 * mm),
           flag_stroke 120 (700 - 5 * string_spacing - 7 * mm) 0,
           flag_stroke 120 (700 - 5 * string_spacing - 7 * mm) ((12 / 10) * mm)])"
proof -
  let ?b = "\<lparr>b_duration = Some (JArr [JInt 1, JInt 4]), b_type = Some (JInt 16),
            b_beamStart = None, b_beamStop = None,
            b_notes = Some [\<lparr>n_rest = None, n_fret = Some (JInt 3), n_string = Some (JInt 0)\<rparr>]\<rparr>"
  obtain ops w where run: "draw_beat (plain_env None) 700 100 (1 / 4) 90 ?b = Inr (ops, w)"
    and w: "w = 100"
    by (simp add: plain_env_def step_defs Let_def cong: ebind_weak_cong)
  from rhythm_stem [OF run] run w show ?thesis
    by (simp add: sounding_def get_or_def get_none_def plain_env_def flag_offsets_def)
qed

text \<open>
  The claim as stated fails: a note with a fret on string 7 of a six-string track is not
  drawn, and its beat has a stem.
\<close>

theorem rhythm_stem_counterexample:
  "case convert (plain_document [one_note_measure (JInt 7) (JInt 3)] None) None of
      Inl err \<Rightarrow> False
    | Inr NoOutput \<Rightarrow> False
    | Inr (Written ps) \<Rightarrow> map drawn_frets ps = [[]] \<and> map stem_count ps = [1]"
  by (simp add: example_defs eval_defs drawn_frets_def stem_count_def
      upt_rec [of _ "numeral _"] eval_nat_numeral Let_def cong: ebind_weak_cong)

section \<open>The time signature in effect\<close>











section \<open>The empty document\<close>

text \<open>
  Claim C9. For a document whose list of measures is empty or absent, \<^verbatim>\<open>convert\<close>
  returns \<^verbatim>\<open>None\<close> at line 133, before the canvas is created: it raises nothing, draws
  no page and saves no file, whatever the rest of the document and the track information
  are.
\<close>

theorem convert_empty_measures:
  assumes "d_measures data = None \<or> d_measures data = Some []"
  shows "convert data track_info = Inr NoOutput"
  using assms by (auto simp: convert_def get_or_def)

theorem convert_empty_measures_witness:
  "d_measures empty_document = Some [] \<and> convert empty_document None = Inr NoOutput"
  using convert_empty_measures [of empty_document None] by (simp add: empty_document_def)

section \<open>The default tempo\<close>

lemma tempo_loop_none_before:
  assumes "\<forall>tc \<in> set tcs. \<exists>r. tempo_measure tc = Some r \<and> of_nat idx < r"
  shows "tempo_loop cur idx tcs = Inr cur"
  using assms by (cases tcs) (auto simp: tempo_measure_def py_num_def)

text \<open>
  Claim C10. When every tempo breakpoint has a measure index above the measure's (and so
  when there is none), the tempo resolved for the measure is 120; resolved for the first
  rendered measure, it is drawn there as the first tempo marking.
\<close>

theorem default_tempo:
  assumes "\<forall>tc \<in> set (get_or (a_tempo a) []). \<exists>r. tempo_measure tc = Some r \<and> of_nat measure_idx < r"
  shows "get_tempo_at_measure a measure_idx = Inr (JInt 120) \<and>
         (prepare data track_info = Inr (e, s0) \<and> automations e = a \<and>
          start_measure e = measure_idx \<and>
          measure_ops e (place e s0 m) measure_idx m = Inr (ops, shown) \<longrightarrow>
            tempo_marks ops = [(tab_x_start, current_y s0 + 4 * mm, JInt 120)])"
proof -
  have tempo: "get_tempo_at_measure a measure_idx = Inr (JInt 120)"
    using tempo_loop_none_before [OF assms] by (simp add: get_tempo_at_measure_def)
  {
    assume prep: "prepare data track_info = Inr (e, s0)" and a: "automations e = a"
      and run: "measure_ops e (place e s0 m) measure_idx m = Inr (ops, shown)"
    from prepare_cursor [OF prep] have s0: "measure_count s0 = 0" "last_shown_tempo s0 = JNull"
      "current_x s0 = tab_x_start" by simp_all
    then have "place e s0 m = s0\<lparr>current_signature := update_signature (current_signature s0) m\<rparr>"
      by (simp add: place_same_line measures_per_line_def)
    with measure_ops_tempo_marks [OF run] tempo a s0
    have "tempo_marks ops = [(tab_x_start, current_y s0 + 4 * mm, JInt 120)]"
      by simp
  }
  with tempo show ?thesis by blast
qed

theorem default_tempo_witness:
  "list_all (\<lambda>tc. tempo_measure tc = Some 2) later_tempo \<and>
   get_tempo_at_measure \<lparr>a_tempo = Some later_tempo\<rparr> 0 = Inr (JInt 120) \<and>
   prepare (plain_document [sig_measure None] (Some later_tempo)) None =
     Inr (plain_env (Some later_tempo), plain_cursor) \<and>
   (case measure_ops (plain_env (Some later_tempo))
           (place (plain_env (Some later_tempo)) plain_cursor (sig_measure None)) 0
           (sig_measure None) of
      Inl err \<Rightarrow> False
    | Inr (ops, shown) \<Rightarrow>
        tempo_marks ops = [(tab_x_start, page_height - margin - 16 * mm, JInt 120)])"
proof -
  let ?e = "plain_env (Some later_tempo)"
  have later: "\<forall>tc \<in> set (get_or (a_tempo \<lparr>a_tempo = Some later_tempo\<rparr>) []).
      \<exists>r. tempo_measure tc = Some r \<and> of_nat 0 < r"
    by (simp add: later_tempo_def tempo_at_def tempo_measure_def get_or_def)
  have two: "list_all (\<lambda>tc. tempo_measure tc = Some 2) later_tempo"
    by (simp add: later_tempo_def tempo_at_def tempo_measure_def get_or_def)
  have prep: "prepare (plain_document [sig_measure None] (Some later_tempo)) None =
      Inr (?e, plain_cursor)"
    by (rule prepare_plain)
      (simp_all add: find_first_content_measure_def sig_measure_def later_tempo_def tempo_at_def
        get_or_def get_tempo_at_measure_def py_num_def)
  obtain ops shown where
    run: "measure_ops ?e (place ?e plain_cursor (sig_measure None)) 0 (sig_measure None) =
            Inr (ops, shown)"
    by (simp add: plain_env_def plain_cursor_def sig_measure_def later_tempo_def tempo_at_def
        step_defs measures_per_line_def upt_rec [of _ "numeral _"] Let_def
        cong: ebind_weak_cong)
  have "automations ?e = \<lparr>a_tempo = Some later_tempo\<rparr>" "start_measure ?e = 0"
    by (simp_all add: plain_env_def)
  with default_tempo [OF later, of "plain_document [sig_measure None] (Some later_tempo)" None
      ?e plain_cursor "sig_measure None" ops shown] prep run two
  show ?thesis
    by (simp add: plain_cursor_def)
qed

end
